theory Spec2Isabelle
  imports Main "HOL-Library.Sublist"
begin

section \<open>Terminal detection (terminal.ts, detectTerminal)\<close>

text \<open>
  The process environment is a partial map from variable names to values. The source
  reads it in two ways: \<^verbatim>\<open>!!process.env.X\<close> (the variable is set and not the empty
  string) and \<^verbatim>\<open>process.env.TERM_PROGRAM === "..."\<close>.
\<close>

type_synonym process_env = "string \<Rightarrow> string option"

definition env_truthy :: "process_env \<Rightarrow> string \<Rightarrow> bool" where
  "env_truthy penv v = (case penv v of None \<Rightarrow> False | Some s \<Rightarrow> s \<noteq> [])"

definition term_program_is :: "process_env \<Rightarrow> string \<Rightarrow> bool" where
  "term_program_is penv s = (penv ''TERM_PROGRAM'' = Some s)"

datatype terminal_type =
  Tmux | Iterm2 | AppleTerminal | Kitty | Wezterm | Alacritty | Vscode | Ghostty | NoTerminal

record TerminalEnvironment =
  inTmux :: bool
  inITerm2 :: bool
  inAppleTerminal :: bool
  inKitty :: bool
  inWezTerm :: bool
  inAlacritty :: bool
  inVSCode :: bool
  inGhostty :: bool
  terminalType :: terminal_type
  summary :: string

definition detectTerminal :: "process_env \<Rightarrow> TerminalEnvironment" where
  "detectTerminal penv =
    (let tmux = env_truthy penv ''TMUX'';
         iterm2 = (term_program_is penv ''iTerm.app'' \<or> env_truthy penv ''ITERM_SESSION_ID'');
         appleTerminal = term_program_is penv ''Apple_Terminal'';
         kitty = (term_program_is penv ''kitty'' \<or> env_truthy penv ''KITTY_PID'');
         wezTerm = term_program_is penv ''WezTerm'';
         alacritty = (term_program_is penv ''Alacritty'' \<or> env_truthy penv ''ALACRITTY_SOCKET'');
         vsCode = (term_program_is penv ''vscode'' \<or> env_truthy penv ''VSCODE_INJECTION'');
         ghostty = (term_program_is penv ''ghostty'' \<or> env_truthy penv ''GHOSTTY_RESOURCES_DIR'');
         (ty, summ) =
           (if tmux then (Tmux, ''tmux'')
            else if iterm2 then (Iterm2, ''iTerm2'')
            else if kitty then (Kitty, ''Kitty'')
            else if wezTerm then (Wezterm, ''WezTerm'')
            else if alacritty then (Alacritty, ''Alacritty (new window mode)'')
            else if vsCode then (Vscode, ''VS Code (new terminal)'')
            else if ghostty then (Ghostty, ''Ghostty (new window mode)'')
            else if appleTerminal then (AppleTerminal, ''Apple Terminal (new window mode)'')
            else (NoTerminal, ''unsupported terminal''))
     in \<lparr> inTmux = tmux, inITerm2 = iterm2, inAppleTerminal = appleTerminal,
          inKitty = kitty, inWezTerm = wezTerm, inAlacritty = alacritty,
          inVSCode = vsCode, inGhostty = ghostty, terminalType = ty, summary = summ \<rparr>)"

text \<open>The variables \<^verbatim>\<open>detectTerminal\<close> reads.\<close>

definition detect_vars :: "string set" where
  "detect_vars = {''TMUX'', ''TERM_PROGRAM'', ''ITERM_SESSION_ID'', ''KITTY_PID'',
     ''ALACRITTY_SOCKET'', ''VSCODE_INJECTION'', ''GHOSTTY_RESOURCES_DIR''}"

section \<open>Strings and numbers of the runtime\<close>

text \<open>
  A string of the runtime is represented by its UTF-8 encoding, a byte list; two strings
  are equal exactly when their encodings are. The text of a file and the output of a
  child process are the strings the runtime decodes them to.

  \<^verbatim>\<open>String.prototype.trim\<close> and \<^verbatim>\<open>parseInt\<close> skip white space and line terminators:
  the characters U+0009 to U+000D, U+0020, U+00A0, U+1680, U+2000 to U+200A, U+2028,
  U+2029, U+202F, U+205F, U+3000 and U+FEFF, listed here by their encodings.
\<close>

definition white_space :: "string list" where
  "white_space =
     [[CHR 0x09], [CHR 0x0A], [CHR 0x0B], [CHR 0x0C], [CHR 0x0D], [CHR 0x20],
      [CHR 0xC2, CHR 0xA0],
      [CHR 0xE1, CHR 0x9A, CHR 0x80],
      [CHR 0xE2, CHR 0x80, CHR 0x80], [CHR 0xE2, CHR 0x80, CHR 0x81], [CHR 0xE2, CHR 0x80, CHR 0x82],
      [CHR 0xE2, CHR 0x80, CHR 0x83], [CHR 0xE2, CHR 0x80, CHR 0x84], [CHR 0xE2, CHR 0x80, CHR 0x85],
      [CHR 0xE2, CHR 0x80, CHR 0x86], [CHR 0xE2, CHR 0x80, CHR 0x87], [CHR 0xE2, CHR 0x80, CHR 0x88],
      [CHR 0xE2, CHR 0x80, CHR 0x89], [CHR 0xE2, CHR 0x80, CHR 0x8A],
      [CHR 0xE2, CHR 0x80, CHR 0xA8], [CHR 0xE2, CHR 0x80, CHR 0xA9], [CHR 0xE2, CHR 0x80, CHR 0xAF],
      [CHR 0xE2, CHR 0x81, CHR 0x9F],
      [CHR 0xE3, CHR 0x80, CHR 0x80],
      [CHR 0xEF, CHR 0xBB, CHR 0xBF]]"

text \<open>The length of the white space character a string starts with, 0 when it starts with none.\<close>

definition leading_length :: "string list \<Rightarrow> string \<Rightarrow> nat" where
  "leading_length pats s =
     (case find (\<lambda>p. p \<noteq> [] \<and> prefix p s) pats of None \<Rightarrow> 0 | Some p \<Rightarrow> length p)"

function drop_leading :: "string list \<Rightarrow> string \<Rightarrow> string" where
  "drop_leading pats s =
     (if leading_length pats s = 0 then s
      else drop_leading pats (drop (leading_length pats s) s))"
  by pat_completeness auto
termination
  by (relation "measure (\<lambda>(pats, s). length s)")
     (auto simp add: leading_length_def find_Some_iff prefix_def split: option.splits)

definition trim :: "string \<Rightarrow> string" where
  "trim s = rev (drop_leading (map rev white_space) (rev (drop_leading white_space s)))"

text \<open>
  \<^verbatim>\<open>parseInt(s, 10)\<close> skips leading white space, reads an optional sign and the longest
  run of decimal digits, and is \<^verbatim>\<open>NaN\<close> (here \<open>None\<close>) when there is no digit. The
  result is a number of the runtime: the integer itself up to 2^53 in absolute value,
  and beyond that the runtime's approximation of it (which may be infinite), kept here
  under the integer it approximates. Such a number is never zero and never \<^verbatim>\<open>NaN\<close>;
  what a signal to it does and how it prints is the host's answer.
\<close>

datatype js_number = Exact int | Approx int

definition number_truthy :: "js_number \<Rightarrow> bool" where
  "number_truthy x = (case x of Exact n \<Rightarrow> n \<noteq> 0 | Approx n \<Rightarrow> True)"

definition is_digit :: "char \<Rightarrow> bool" where
  "is_digit c = (48 \<le> (of_char c :: nat) \<and> (of_char c :: nat) \<le> 57)"

definition digits_val :: "string \<Rightarrow> nat" where
  "digits_val ds = foldl (\<lambda>a c. 10 * a + ((of_char c :: nat) - 48)) 0 ds"

definition parseInt :: "string \<Rightarrow> js_number option" where
  "parseInt s =
    (let t = drop_leading white_space s;
         (neg, r) = (case t of
                       [] \<Rightarrow> (False, t)
                     | c # cs \<Rightarrow> if c = CHR ''-'' then (True, cs)
                                else if c = CHR ''+'' then (False, cs) else (False, t));
         ds = takeWhile is_digit r;
         n = (if neg then - int (digits_val ds) else int (digits_val ds))
     in if ds = [] then None
        else Some (if \<bar>n\<bar> \<le> 9007199254740992 then Exact n else Approx n))"

fun show_nat :: "nat \<Rightarrow> string" where
  "show_nat n = (if n < 10 then [char_of (48 + n)] else show_nat (n div 10) @ [char_of (48 + n mod 10)])"

definition js_String_num :: "int \<Rightarrow> string" where
  "js_String_num i = (if i < 0 then CHR ''-'' # show_nat (nat (- i)) else show_nat (nat i))"

definition dq :: string where
  "dq = [CHR 0x22]"

text \<open>\<^verbatim>\<open>command.replace(/"/g, '\\"')\<close>: a backslash before every double quote.\<close>

definition escape_dq :: "string \<Rightarrow> string" where
  "escape_dq s = concat (map (\<lambda>c. if c = CHR 0x22 then [CHR 0x5C, CHR 0x22] else [c]) s)"

text \<open>A template literal that spans several lines, given line by line.\<close>

fun js_lines :: "string list \<Rightarrow> string" where
  "js_lines [] = []"
| "js_lines [l] = l"
| "js_lines (l # ls) = l @ CHR 0x0A # js_lines ls"

text \<open>\<^verbatim>\<open>s.replace(pat, by)\<close> with a string pattern: the first occurrence only.\<close>

fun replace_first :: "string \<Rightarrow> string \<Rightarrow> string \<Rightarrow> string" where
  "replace_first pat rep [] = (if pat = [] then rep else [])"
| "replace_first pat rep (c # cs) =
     (if prefix pat (c # cs) then rep @ drop (length pat) (c # cs)
      else c # replace_first pat rep cs)"

section \<open>Values read from JSON\<close>

text \<open>
  WezTerm and Kitty list their panes and windows as JSON. \<^verbatim>\<open>JSON.parse\<close> and
  \<^verbatim>\<open>JSON.stringify\<close> belong to the runtime and are parameters of the model, fields of
  the host below (\<open>None\<close>: \<^verbatim>\<open>JSON.parse\<close> throws); what the source does
  with the parsed value is modelled on the value: property access (which throws on
  \<^verbatim>\<open>null\<close> and \<^verbatim>\<open>undefined\<close>), truthiness, iteration (arrays and strings are
  iterable, nothing else that JSON yields is) and \<^verbatim>\<open>String(v)\<close>. An object is the
  list of its properties, each key once; a number is an integer.
\<close>

datatype jsval =
  JUndefined | JNull | JBool bool | JNum int | JStr string | JArr "jsval list"
  | JObj "(string \<times> jsval) list"

definition js_get :: "jsval \<Rightarrow> string \<Rightarrow> jsval option" where
  "js_get v k =
    (case v of
       JUndefined \<Rightarrow> None
     | JNull \<Rightarrow> None
     | JObj kvs \<Rightarrow> (case map_of kvs k of None \<Rightarrow> Some JUndefined | Some x \<Rightarrow> Some x)
     | _ \<Rightarrow> Some JUndefined)"

definition js_truthy :: "jsval \<Rightarrow> bool" where
  "js_truthy v =
    (case v of
       JUndefined \<Rightarrow> False | JNull \<Rightarrow> False | JBool b \<Rightarrow> b | JNum n \<Rightarrow> n \<noteq> 0
     | JStr s \<Rightarrow> s \<noteq> [] | JArr xs \<Rightarrow> True | JObj kvs \<Rightarrow> True)"

text \<open>
  The characters of a string, as \<^verbatim>\<open>for ... of\<close> goes through them: a byte that continues
  a character (0x80 to 0xBF) stays with the bytes before it.
\<close>

definition js_chars :: "string \<Rightarrow> string list" where
  "js_chars s =
     foldr (\<lambda>c acc. case acc of
                       [] \<Rightarrow> [[c]]
                     | g # gs \<Rightarrow>
                         if g \<noteq> [] \<and> 128 \<le> (of_char (hd g) :: nat) \<and> (of_char (hd g) :: nat) \<le> 191
                         then (c # g) # gs else [c] # acc) s []"

definition js_iter :: "jsval \<Rightarrow> jsval list option" where
  "js_iter v =
    (case v of JArr xs \<Rightarrow> Some xs | JStr s \<Rightarrow> Some (map JStr (js_chars s)) | _ \<Rightarrow> None)"

fun js_join :: "string list \<Rightarrow> string" where
  "js_join [] = []"
| "js_join [s] = s"
| "js_join (s # ss) = s @ CHR '','' # js_join ss"

fun js_String :: "jsval \<Rightarrow> string" where
  "js_String JUndefined = ''undefined''"
| "js_String JNull = ''null''"
| "js_String (JBool b) = (if b then ''true'' else ''false'')"
| "js_String (JNum n) = js_String_num n"
| "js_String (JStr s) = s"
| "js_String (JArr xs) =
     js_join (map (\<lambda>x. if x = JNull \<or> x = JUndefined then [] else js_String x) xs)"
| "js_String (JObj kvs) = ''[object Object]''"

text \<open>
  A loop that returns at the first element for which the body returns, and is left by
  an exception (\<open>None\<close>) when the body throws.
\<close>

fun first_match :: "('a \<Rightarrow> bool option) \<Rightarrow> 'a list \<Rightarrow> bool option" where
  "first_match f [] = Some False"
| "first_match f (x # xs) =
     (case f x of None \<Rightarrow> None | Some True \<Rightarrow> Some True | Some False \<Rightarrow> first_match f xs)"

section \<open>The world outside the process\<close>

text \<open>
  Everything the orchestrator does is an effect on the machine: it reads and overwrites
  the registry files, runs child processes, signals processes and sets timers. The
  model threads a \<open>world\<close> through every function: the files, and the trace of the
  effects in the order the call performed them. What the machine answers (the exit code
  and output of a child process, whether a signal could be delivered, the process id of
  a detached child) is not decided by the program; it is read from a \<open>host\<close>, which
  may answer differently each time because it sees the trace so far. File operations are
  taken to succeed.

  A child process that could not be started emits \<^verbatim>\<open>error\<close> and then \<^verbatim>\<open>close\<close> with a
  status that is not 0 (\<open>SpawnFailed\<close>: both handlers run, \<^verbatim>\<open>error\<close> first); one that
  was started emits \<^verbatim>\<open>close\<close> with its exit status and the output collected so far.
\<close>

datatype signal = Sig0 | SIGTERM

datatype deferred =
  PositionAlacrittyWindow | FindGhosttyPidAndPosition | SpawnLater string "string list"

datatype event =
    Write string string
  | SpawnSync string "string list" "nat option"
  | Spawn string "string list"
  | SpawnDetached string "string list"
  | Kill js_number signal
  | Sleep nat
  | SetTimeout nat deferred
  | ConsoleError string

datatype proc_outcome = Closed "int option" string | SpawnFailed

record world =
  files :: "string \<Rightarrow> string option"
  trace :: "event list"

record host =
  exec :: "event list \<Rightarrow> string \<Rightarrow> string list \<Rightarrow> proc_outcome"
  detached_pid :: "event list \<Rightarrow> string \<Rightarrow> string list \<Rightarrow> int option"
  kill_ok :: "event list \<Rightarrow> js_number \<Rightarrow> signal \<Rightarrow> bool"
  inexact_String :: "int \<Rightarrow> string"
  platform :: string
  import_meta_dir :: string
  process_env :: process_env
  JSON_parse :: "string \<Rightarrow> jsval option"
  JSON_stringify :: "jsval \<Rightarrow> string"

definition emit :: "event \<Rightarrow> world \<Rightarrow> world" where
  "emit e w = w\<lparr>trace := trace w @ [e]\<rparr>"

text \<open>\<^verbatim>\<open>Bun.write(path, text)\<close> replaces the whole content of the file.\<close>

definition bun_write :: "string \<Rightarrow> string \<Rightarrow> world \<Rightarrow> world" where
  "bun_write path txt w = emit (Write path txt) (w\<lparr>files := (files w)(path \<mapsto> txt)\<rparr>)"

text \<open>
  \<^verbatim>\<open>spawnSync\<close> returns \<^verbatim>\<open>status\<close> and \<^verbatim>\<open>stdout\<close> (\<open>SpawnFailed\<close>: the status is
  \<^verbatim>\<open>null\<close>); \<^verbatim>\<open>spawn\<close> returns at once and its handlers run on the events above. Both
  outcomes are the host's answer.
\<close>

definition spawnSync :: "host \<Rightarrow> string \<Rightarrow> string list \<Rightarrow> nat option \<Rightarrow> world \<Rightarrow> proc_outcome \<times> world" where
  "spawnSync h c args tmo w = (exec h (trace w) c args, emit (SpawnSync c args tmo) w)"

definition spawn :: "host \<Rightarrow> string \<Rightarrow> string list \<Rightarrow> world \<Rightarrow> proc_outcome \<times> world" where
  "spawn h c args w = (exec h (trace w) c args, emit (Spawn c args) w)"

text \<open>A detached child with \<^verbatim>\<open>stdio: "ignore"\<close>: only \<^verbatim>\<open>proc.pid\<close> is read.\<close>

definition spawn_detached :: "host \<Rightarrow> string \<Rightarrow> string list \<Rightarrow> world \<Rightarrow> int option \<times> world" where
  "spawn_detached h c args w = (detached_pid h (trace w) c args, emit (SpawnDetached c args) w)"

text \<open>\<^verbatim>\<open>process.kill(pid, sig)\<close> returns (\<open>True\<close>) or throws (\<open>False\<close>).\<close>

definition process_kill :: "host \<Rightarrow> js_number \<Rightarrow> signal \<Rightarrow> world \<Rightarrow> bool \<times> world" where
  "process_kill h p sg w = (kill_ok h (trace w) p sg, emit (Kill p sg) w)"

text \<open>\<^verbatim>\<open>String(x)\<close> and \<^verbatim>\<open>`${x}`\<close> for a number read by \<^verbatim>\<open>parseInt\<close>.\<close>

definition js_String_number :: "host \<Rightarrow> js_number \<Rightarrow> string" where
  "js_String_number h x = (case x of Exact n \<Rightarrow> js_String_num n | Approx n \<Rightarrow> inexact_String h n)"

definition status_ok :: "proc_outcome \<Rightarrow> bool" where
  "status_ok r = (case r of Closed code out \<Rightarrow> code = Some 0 | SpawnFailed \<Rightarrow> False)"

section \<open>tmux (terminal.ts, lines 171-264)\<close>

definition CANVAS_PANE_FILE :: string where
  "CANVAS_PANE_FILE = ''/tmp/claude-canvas-pane-id''"

definition getCanvasPaneId :: "host \<Rightarrow> world \<Rightarrow> string option \<times> world" where
  "getCanvasPaneId h w =
    (case files w CANVAS_PANE_FILE of
       None \<Rightarrow> (None, w)
     | Some txt \<Rightarrow>
         let paneId = trim txt;
             (result, w1) =
               spawnSync h ''tmux'' [''display-message'', ''-t'', paneId, ''-p'', ''#{pane_id}''] None w
         in (case result of
               Closed code out \<Rightarrow>
                 if code = Some 0 \<and> trim out = paneId then (Some paneId, w1)
                 else (None, bun_write CANVAS_PANE_FILE [] w1)
             | SpawnFailed \<Rightarrow> (None, bun_write CANVAS_PANE_FILE [] w1)))"

definition saveCanvasPaneId :: "string \<Rightarrow> world \<Rightarrow> world" where
  "saveCanvasPaneId paneId w = bun_write CANVAS_PANE_FILE paneId w"

definition tmux_split_args :: "string \<Rightarrow> string list" where
  "tmux_split_args command =
     [''split-window'', ''-h'', ''-p'', ''67'', ''-P'', ''-F'', ''#{pane_id}'', command]"

definition createNewPane :: "host \<Rightarrow> string \<Rightarrow> world \<Rightarrow> bool \<times> world" where
  "createNewPane h command w =
    (let (r, w1) = spawn h ''tmux'' (tmux_split_args command) w
     in (case r of
           Closed code paneId \<Rightarrow>
             (code = Some 0,
              if code = Some 0 \<and> trim paneId \<noteq> [] then saveCanvasPaneId (trim paneId) w1 else w1)
         | SpawnFailed \<Rightarrow> (False, w1)))"

text \<open>
  The interrupt process has two handlers. \<^verbatim>\<open>error\<close> resolves the promise with
  \<^verbatim>\<open>false\<close>. \<^verbatim>\<open>close\<close> does not look at the exit status: it arms the 150 ms timer,
  whose callback sends \<^verbatim>\<open>clear && <command>\<close> and resolves the promise with the outcome
  of that. When the interrupt process could not be started both run: the promise is
  already resolved with \<^verbatim>\<open>false\<close> and the caller goes on, while the timer is armed all
  the same and its callback sends the text later, on its own (\<open>SetTimeout 150 (SpawnLater
  ...)\<close>). \<^verbatim>\<open>reuseWezTermPane\<close> and \<^verbatim>\<open>reuseKittyWindow\<close> below are built the same way.
\<close>

definition reuseExistingPane :: "host \<Rightarrow> string \<Rightarrow> string \<Rightarrow> world \<Rightarrow> bool \<times> world" where
  "reuseExistingPane h paneId command w =
    (let (k, w1) = spawn h ''tmux'' [''send-keys'', ''-t'', paneId, ''C-c''] w
     in (case k of
           SpawnFailed \<Rightarrow>
             (False,
              emit (SetTimeout 150
                      (SpawnLater ''tmux''
                         [''send-keys'', ''-t'', paneId, ''clear && '' @ command, ''Enter''])) w1)
         | Closed kcode kout \<Rightarrow>
             let w2 = emit (Sleep 150) w1;
                 (r, w3) = spawn h ''tmux''
                             [''send-keys'', ''-t'', paneId, ''clear && '' @ command, ''Enter''] w2
             in (status_ok r, w3)))"

definition spawnTmux :: "host \<Rightarrow> string \<Rightarrow> world \<Rightarrow> bool \<times> world" where
  "spawnTmux h command w =
    (let (existingPaneId, w1) = getCanvasPaneId h w
     in (case existingPaneId of
           None \<Rightarrow> createNewPane h command w1
         | Some paneId \<Rightarrow>
             if paneId \<noteq> [] then
               (let (reused, w2) = reuseExistingPane h paneId command w1
                in if reused then (True, w2)
                   else createNewPane h command (bun_write CANVAS_PANE_FILE [] w2))
             else createNewPane h command w1))"

section \<open>iTerm2 (terminal.ts, lines 270-398)\<close>

definition ITERM2_SESSION_FILE :: string where
  "ITERM2_SESSION_FILE = ''/tmp/claude-canvas-iterm2-session''"

definition iterm2_check_script :: "string \<Rightarrow> string" where
  "iterm2_check_script sessionId =
    js_lines
     ['''',
      ''          tell application '' @ dq @ ''iTerm2'' @ dq,
      ''            repeat with w in windows'',
      ''              repeat with t in tabs of w'',
      ''                repeat with s in sessions of t'',
      ''                  if unique ID of s is '' @ dq @ sessionId @ dq @ '' then'',
      ''                    return '' @ dq @ ''exists'' @ dq,
      ''                  end if'',
      ''                end repeat'',
      ''              end repeat'',
      ''            end repeat'',
      ''            return '' @ dq @ ''not_found'' @ dq,
      ''          end tell'',
      ''        '']"

definition iterm2_create_script :: "string \<Rightarrow> string" where
  "iterm2_create_script command =
    js_lines
     ['''',
      ''      tell application '' @ dq @ ''iTerm2'' @ dq,
      ''        tell current session of current tab of current window'',
      ''          set newSession to split vertically with same profile'',
      ''          tell newSession'',
      ''            write text '' @ dq @ escape_dq command @ dq,
      ''          end tell'',
      ''          return unique ID of newSession'',
      ''        end tell'',
      ''      end tell'',
      ''    '']"

definition iterm2_reuse_script :: "string \<Rightarrow> string \<Rightarrow> string" where
  "iterm2_reuse_script sessionId command =
    js_lines
     ['''',
      ''      tell application '' @ dq @ ''iTerm2'' @ dq,
      ''        repeat with w in windows'',
      ''          repeat with t in tabs of w'',
      ''            repeat with s in sessions of t'',
      ''              if unique ID of s is '' @ dq @ sessionId @ dq @ '' then'',
      ''                tell s'',
      ''                  write text (ASCII character 3)'',
      ''                  delay 0.15'',
      ''                  write text '' @ dq @ ''clear && '' @ escape_dq command @ dq,
      ''                end tell'',
      ''                return '' @ dq @ ''success'' @ dq,
      ''              end if'',
      ''            end repeat'',
      ''          end repeat'',
      ''        end repeat'',
      ''        return '' @ dq @ ''not_found'' @ dq,
      ''      end tell'',
      ''    '']"

definition osascript_says :: "proc_outcome \<Rightarrow> string \<Rightarrow> bool" where
  "osascript_says r word = (case r of Closed code out \<Rightarrow> code = Some 0 \<and> trim out = word | SpawnFailed \<Rightarrow> False)"

definition getITerm2SessionId :: "host \<Rightarrow> world \<Rightarrow> string option \<times> world" where
  "getITerm2SessionId h w =
    (case files w ITERM2_SESSION_FILE of
       None \<Rightarrow> (None, w)
     | Some txt \<Rightarrow>
         let sessionId = trim txt
         in if sessionId \<noteq> [] then
              (let (result, w1) = spawnSync h ''osascript'' [''-e'', iterm2_check_script sessionId] None w
               in if osascript_says result ''exists'' then (Some sessionId, w1)
                  else (None, bun_write ITERM2_SESSION_FILE [] w1))
            else (None, w))"

definition saveITerm2SessionId :: "string \<Rightarrow> world \<Rightarrow> world" where
  "saveITerm2SessionId sessionId w = bun_write ITERM2_SESSION_FILE sessionId w"

definition createITerm2SplitPane :: "host \<Rightarrow> string \<Rightarrow> world \<Rightarrow> bool \<times> world" where
  "createITerm2SplitPane h command w =
    (let (r, w1) = spawn h ''osascript'' [''-e'', iterm2_create_script command] w
     in (case r of
           Closed code sessionId \<Rightarrow>
             if code = Some 0 \<and> trim sessionId \<noteq> [] then (True, saveITerm2SessionId (trim sessionId) w1)
             else (False, w1)
         | SpawnFailed \<Rightarrow> (False, w1)))"

definition reuseITerm2Session :: "host \<Rightarrow> string \<Rightarrow> string \<Rightarrow> world \<Rightarrow> bool \<times> world" where
  "reuseITerm2Session h sessionId command w =
    (let (r, w1) = spawn h ''osascript'' [''-e'', iterm2_reuse_script sessionId command] w
     in (osascript_says r ''success'', w1))"

definition spawnITerm2 :: "host \<Rightarrow> string \<Rightarrow> world \<Rightarrow> bool \<times> world" where
  "spawnITerm2 h command w =
    (let (existingSessionId, w1) = getITerm2SessionId h w
     in (case existingSessionId of
           None \<Rightarrow> createITerm2SplitPane h command w1
         | Some sessionId \<Rightarrow>
             if sessionId \<noteq> [] then
               (let (reused, w2) = reuseITerm2Session h sessionId command w1
                in if reused then (True, w2)
                   else createITerm2SplitPane h command (bun_write ITERM2_SESSION_FILE [] w2))
             else createITerm2SplitPane h command w1))"

section \<open>Apple Terminal (terminal.ts, lines 404-526)\<close>

definition APPLE_TERMINAL_WINDOW_FILE :: string where
  "APPLE_TERMINAL_WINDOW_FILE = ''/tmp/claude-canvas-terminal-window''"

definition apple_check_script :: "host \<Rightarrow> js_number \<Rightarrow> string" where
  "apple_check_script h windowId =
    js_lines
     ['''',
      ''          tell application '' @ dq @ ''Terminal'' @ dq,
      ''            repeat with w in windows'',
      ''              if id of w is '' @ js_String_number h windowId @ '' then'',
      ''                return '' @ dq @ ''exists'' @ dq,
      ''              end if'',
      ''            end repeat'',
      ''            return '' @ dq @ ''not_found'' @ dq,
      ''          end tell'',
      ''        '']"

definition apple_create_script :: "string \<Rightarrow> string" where
  "apple_create_script command =
    js_lines
     ['''',
      ''      tell application '' @ dq @ ''Terminal'' @ dq,
      ''        do script '' @ dq @ escape_dq command @ dq,
      ''        set canvasWindow to front window'',
      ''        set windowId to id of canvasWindow'',
      ''        tell application '' @ dq @ ''Finder'' @ dq,
      ''          set screenBounds to bounds of window of desktop'',
      ''          set screenWidth to item 3 of screenBounds'',
      ''          set screenHeight to item 4 of screenBounds'',
      ''        end tell'',
      ''        set bounds of canvasWindow to {(screenWidth / 2), 0, screenWidth, screenHeight}'',
      ''        set custom title of canvasWindow to '' @ dq @ ''Canvas'' @ dq,
      ''        return windowId'',
      ''      end tell'',
      ''    '']"

definition apple_reuse_script :: "host \<Rightarrow> js_number \<Rightarrow> string \<Rightarrow> string" where
  "apple_reuse_script h windowId command =
    js_lines
     ['''',
      ''      tell application '' @ dq @ ''Terminal'' @ dq,
      ''        repeat with w in windows'',
      ''          if id of w is '' @ js_String_number h windowId @ '' then'',
      ''            set frontmost of w to true'',
      ''            do script '' @ dq @ ''clear && '' @ escape_dq command @ dq @ '' in w'',
      ''            return '' @ dq @ ''success'' @ dq,
      ''          end if'',
      ''        end repeat'',
      ''        return '' @ dq @ ''not_found'' @ dq,
      ''      end tell'',
      ''    '']"

definition getAppleTerminalWindowId :: "host \<Rightarrow> world \<Rightarrow> js_number option \<times> world" where
  "getAppleTerminalWindowId h w =
    (case files w APPLE_TERMINAL_WINDOW_FILE of
       None \<Rightarrow> (None, w)
     | Some txt \<Rightarrow>
         (case parseInt (trim txt) of
            None \<Rightarrow> (None, w)
          | Some windowId \<Rightarrow>
              let (result, w1) = spawnSync h ''osascript'' [''-e'', apple_check_script h windowId] None w
              in if osascript_says result ''exists'' then (Some windowId, w1)
                 else (None, bun_write APPLE_TERMINAL_WINDOW_FILE [] w1)))"

definition saveAppleTerminalWindowId :: "host \<Rightarrow> js_number \<Rightarrow> world \<Rightarrow> world" where
  "saveAppleTerminalWindowId h windowId w =
     bun_write APPLE_TERMINAL_WINDOW_FILE (js_String_number h windowId) w"

definition createAppleTerminalWindow :: "host \<Rightarrow> string \<Rightarrow> world \<Rightarrow> bool \<times> world" where
  "createAppleTerminalWindow h command w =
    (let (r, w1) = spawn h ''osascript'' [''-e'', apple_create_script command] w
     in (case r of
           Closed code windowId \<Rightarrow>
             (case parseInt (trim windowId) of
                Some n \<Rightarrow> if code = Some 0 then (True, saveAppleTerminalWindowId h n w1) else (False, w1)
              | None \<Rightarrow> (False, w1))
         | SpawnFailed \<Rightarrow> (False, w1)))"

definition reuseAppleTerminalWindow :: "host \<Rightarrow> js_number \<Rightarrow> string \<Rightarrow> world \<Rightarrow> bool \<times> world" where
  "reuseAppleTerminalWindow h windowId command w =
    (let (r, w1) = spawn h ''osascript'' [''-e'', apple_reuse_script h windowId command] w
     in (osascript_says r ''success'', w1))"

text \<open>\<^verbatim>\<open>if (existingWindowId)\<close> is false for the window id 0 as it is for \<^verbatim>\<open>null\<close>.\<close>

definition spawnAppleTerminal :: "host \<Rightarrow> string \<Rightarrow> world \<Rightarrow> bool \<times> world" where
  "spawnAppleTerminal h command w =
    (let (existingWindowId, w1) = getAppleTerminalWindowId h w
     in (case existingWindowId of
           None \<Rightarrow> createAppleTerminalWindow h command w1
         | Some windowId \<Rightarrow>
             if number_truthy windowId then
               (let (reused, w2) = reuseAppleTerminalWindow h windowId command w1
                in if reused then (True, w2)
                   else createAppleTerminalWindow h command (bun_write APPLE_TERMINAL_WINDOW_FILE [] w2))
             else createAppleTerminalWindow h command w1))"

section \<open>WezTerm (terminal.ts, lines 532-651)\<close>

definition WEZTERM_PANE_FILE :: string where
  "WEZTERM_PANE_FILE = ''/tmp/claude-canvas-wezterm-pane''"

text \<open>\<^verbatim>\<open>panes.some((p) => String(p.pane_id) === paneId)\<close>; not an array: \<^verbatim>\<open>some\<close> is not a function.\<close>

definition wezterm_pane_exists :: "jsval \<Rightarrow> string \<Rightarrow> bool option" where
  "wezterm_pane_exists panes paneId =
    (case panes of
       JArr ps \<Rightarrow>
         first_match (\<lambda>p. case js_get p ''pane_id'' of
                             None \<Rightarrow> None
                           | Some v \<Rightarrow> Some (js_String v = paneId)) ps
     | _ \<Rightarrow> None)"

definition getWezTermPaneId :: "host \<Rightarrow> world \<Rightarrow> string option \<times> world" where
  "getWezTermPaneId h w =
    (case files w WEZTERM_PANE_FILE of
       None \<Rightarrow> (None, w)
     | Some txt \<Rightarrow>
         let paneId = trim txt
         in if paneId \<noteq> [] then
              (let (result, w1) = spawnSync h ''wezterm'' [''cli'', ''list'', ''--format=json''] None w;
                   found =
                     (case result of
                        Closed code out \<Rightarrow>
                          code = Some 0 \<and>
                          (case JSON_parse h (if out \<noteq> [] then out else ''[]'') of
                             None \<Rightarrow> False
                           | Some panes \<Rightarrow> wezterm_pane_exists panes paneId = Some True)
                      | SpawnFailed \<Rightarrow> False)
               in if found then (Some paneId, w1)
                  else (None, bun_write WEZTERM_PANE_FILE [] w1))
            else (None, w))"

definition saveWezTermPaneId :: "string \<Rightarrow> world \<Rightarrow> world" where
  "saveWezTermPaneId paneId w = bun_write WEZTERM_PANE_FILE paneId w"

definition createWezTermSplitPane :: "host \<Rightarrow> string \<Rightarrow> world \<Rightarrow> bool \<times> world" where
  "createWezTermSplitPane h command w =
    (let (r, w1) = spawn h ''wezterm''
                     [''cli'', ''split-pane'', ''--right'', ''--percent'', ''67'', ''--'', ''bash'', ''-c'', command] w
     in (case r of
           Closed code out \<Rightarrow>
             if code = Some 0 then
               (True, if trim out \<noteq> [] then saveWezTermPaneId (trim out) w1 else w1)
             else (False, w1)
         | SpawnFailed \<Rightarrow> (False, w1)))"

definition reuseWezTermPane :: "host \<Rightarrow> string \<Rightarrow> string \<Rightarrow> world \<Rightarrow> bool \<times> world" where
  "reuseWezTermPane h paneId command w =
    (let (c, w1) = spawn h ''wezterm'' [''cli'', ''send-text'', ''--pane-id'', paneId, ''--no-paste'', [CHR 0x03]] w
     in (case c of
           SpawnFailed \<Rightarrow>
             (False,
              emit (SetTimeout 150
                      (SpawnLater ''wezterm''
                         [''cli'', ''send-text'', ''--pane-id'', paneId, ''--no-paste'',
                          ''clear && '' @ command @ [CHR 0x0A]])) w1)
         | Closed ccode cout \<Rightarrow>
             let w2 = emit (Sleep 150) w1;
                 newCommand = ''clear && '' @ command @ [CHR 0x0A];
                 (r, w3) = spawn h ''wezterm''
                             [''cli'', ''send-text'', ''--pane-id'', paneId, ''--no-paste'', newCommand] w2
             in (status_ok r, w3)))"

definition spawnWezTerm :: "host \<Rightarrow> string \<Rightarrow> world \<Rightarrow> bool \<times> world" where
  "spawnWezTerm h command w =
    (let (existingPaneId, w1) = getWezTermPaneId h w
     in (case existingPaneId of
           None \<Rightarrow> createWezTermSplitPane h command w1
         | Some paneId \<Rightarrow>
             if paneId \<noteq> [] then
               (let (reused, w2) = reuseWezTermPane h paneId command w1
                in if reused then (True, w2)
                   else createWezTermSplitPane h command (bun_write WEZTERM_PANE_FILE [] w2))
             else createWezTermSplitPane h command w1))"

section \<open>Kitty (terminal.ts, lines 657-793)\<close>

definition KITTY_WINDOW_FILE :: string where
  "KITTY_WINDOW_FILE = ''/tmp/claude-canvas-kitty-window''"

text \<open>\<^verbatim>\<open>x || []\<close>\<close>

definition or_empty :: "jsval \<Rightarrow> jsval" where
  "or_empty v = (if js_truthy v then v else JArr [])"

text \<open>
  The three nested \<^verbatim>\<open>for ... of\<close> loops over the OS windows, their tabs and the tabs'
  windows; \<open>Some True\<close> when the \<^verbatim>\<open>return windowId\<close> is reached.
\<close>

definition kitty_tab_has :: "string \<Rightarrow> jsval \<Rightarrow> bool option" where
  "kitty_tab_has windowId tab =
    (case js_get tab ''windows'' of
       None \<Rightarrow> None
     | Some ws \<Rightarrow>
         (case js_iter (or_empty ws) of
            None \<Rightarrow> None
          | Some wins \<Rightarrow>
              first_match (\<lambda>win. case js_get win ''id'' of
                                     None \<Rightarrow> None
                                   | Some v \<Rightarrow> Some (js_String v = windowId)) wins))"

definition kitty_os_window_has :: "string \<Rightarrow> jsval \<Rightarrow> bool option" where
  "kitty_os_window_has windowId osWindow =
    (case js_get osWindow ''tabs'' of
       None \<Rightarrow> None
     | Some ts \<Rightarrow>
         (case js_iter (or_empty ts) of
            None \<Rightarrow> None
          | Some tabs \<Rightarrow> first_match (kitty_tab_has windowId) tabs))"

definition kitty_window_exists :: "jsval \<Rightarrow> string \<Rightarrow> bool option" where
  "kitty_window_exists windows windowId =
    (case js_iter windows of
       None \<Rightarrow> None
     | Some osWindows \<Rightarrow> first_match (kitty_os_window_has windowId) osWindows)"

definition getKittyWindowId :: "host \<Rightarrow> world \<Rightarrow> string option \<times> world" where
  "getKittyWindowId h w =
    (case files w KITTY_WINDOW_FILE of
       None \<Rightarrow> (None, w)
     | Some txt \<Rightarrow>
         let windowId = trim txt
         in if windowId \<noteq> [] then
              (let (result, w1) = spawnSync h ''kitty'' [''@'', ''ls''] None w;
                   found =
                     (case result of
                        Closed code out \<Rightarrow>
                          code = Some 0 \<and>
                          (case JSON_parse h (if out \<noteq> [] then out else ''[]'') of
                             None \<Rightarrow> False
                           | Some windows \<Rightarrow> kitty_window_exists windows windowId = Some True)
                      | SpawnFailed \<Rightarrow> False)
               in if found then (Some windowId, w1)
                  else (None, bun_write KITTY_WINDOW_FILE [] w1))
            else (None, w))"

definition saveKittyWindowId :: "string \<Rightarrow> world \<Rightarrow> world" where
  "saveKittyWindowId windowId w = bun_write KITTY_WINDOW_FILE windowId w"

definition isKittyRemoteControlAvailable :: "host \<Rightarrow> world \<Rightarrow> bool \<times> world" where
  "isKittyRemoteControlAvailable h w =
    (let (result, w1) = spawnSync h ''kitty'' [''@'', ''ls''] (Some 2000) w
     in (status_ok result, w1))"

definition kitty_launch_args :: "string \<Rightarrow> string list" where
  "kitty_launch_args command =
     [''@'', ''launch'', ''--location=vsplit'', ''--cwd=current'', ''--title=Canvas'', ''bash'', ''-c'', command]"

definition kitty_window_args :: "string \<Rightarrow> string list" where
  "kitty_window_args command = [''--title=Canvas'', ''bash'', ''-c'', command]"

definition createKittySplitPane :: "host \<Rightarrow> string \<Rightarrow> world \<Rightarrow> bool \<times> world" where
  "createKittySplitPane h command w =
    (let (remote, w1) = isKittyRemoteControlAvailable h w
     in if remote then
          (let (r, w2) = spawn h ''kitty'' (kitty_launch_args command) w1
           in (case r of
                 Closed code out \<Rightarrow>
                   if code = Some 0 then
                     (True, if trim out \<noteq> [] then saveKittyWindowId (trim out) w2 else w2)
                   else (False, w2)
               | SpawnFailed \<Rightarrow> (False, w2)))
        else
          (let (p, w2) = spawn_detached h ''kitty'' (kitty_window_args command) w1
           in (True, w2)))"

definition reuseKittyWindow :: "host \<Rightarrow> string \<Rightarrow> string \<Rightarrow> world \<Rightarrow> bool \<times> world" where
  "reuseKittyWindow h windowId command w =
    (let (c, w1) = spawn h ''kitty'' [''@'', ''send-text'', ''--match'', ''id:'' @ windowId, [CHR 0x03]] w
     in (case c of
           SpawnFailed \<Rightarrow>
             (False,
              emit (SetTimeout 150
                      (SpawnLater ''kitty''
                         [''@'', ''send-text'', ''--match'', ''id:'' @ windowId,
                          ''clear && '' @ command @ [CHR 0x0A]])) w1)
         | Closed ccode cout \<Rightarrow>
             let w2 = emit (Sleep 150) w1;
                 newCommand = ''clear && '' @ command @ [CHR 0x0A];
                 (r, w3) = spawn h ''kitty'' [''@'', ''send-text'', ''--match'', ''id:'' @ windowId, newCommand] w2
             in (status_ok r, w3)))"

definition spawnKitty :: "host \<Rightarrow> string \<Rightarrow> world \<Rightarrow> bool \<times> world" where
  "spawnKitty h command w =
    (let (remote, w1) = isKittyRemoteControlAvailable h w
     in if remote then
          (let (existingWindowId, w2) = getKittyWindowId h w1
           in (case existingWindowId of
                 None \<Rightarrow> createKittySplitPane h command w2
               | Some windowId \<Rightarrow>
                   if windowId \<noteq> [] then
                     (let (reused, w3) = reuseKittyWindow h windowId command w2
                      in if reused then (True, w3)
                         else createKittySplitPane h command (bun_write KITTY_WINDOW_FILE [] w3))
                   else createKittySplitPane h command w2))
        else createKittySplitPane h command w1)"

section \<open>Alacritty, VS Code and Ghostty (terminal.ts, lines 799-1074)\<close>

text \<open>
  These three keep a process id. The probe is \<^verbatim>\<open>process.kill(pid, 0)\<close>; there is no
  reuse transport: a live process is sent \<^verbatim>\<open>SIGTERM\<close>, the entry is cleared and a new
  window or process is always created. \<^verbatim>\<open>if (existingPid)\<close> and \<^verbatim>\<open>if (proc.pid)\<close>
  are false for 0 as they are for \<^verbatim>\<open>null\<close> and \<^verbatim>\<open>undefined\<close>. The source repeats the
  probe and the termination word for word for each of the three, with its own file; the
  model states them once, with the file as a parameter. A timer whose callback runs
  after the call has returned is recorded as a \<open>SetTimeout\<close> event; the callback itself
  is outside the call. The process id the host reports for a child it started is the
  operating system's, an integer well below 2^53.
\<close>

definition get_pid :: "string \<Rightarrow> host \<Rightarrow> world \<Rightarrow> js_number option \<times> world" where
  "get_pid pidFile h w =
    (case files w pidFile of
       None \<Rightarrow> (None, w)
     | Some txt \<Rightarrow>
         (case parseInt (trim txt) of
            None \<Rightarrow> (None, w)
          | Some p \<Rightarrow>
              let (alive, w1) = process_kill h p Sig0 w
              in if alive then (Some p, w1) else (None, bun_write pidFile [] w1)))"

text \<open>
  The body the three \<^verbatim>\<open>spawn...\<close> functions share before they create:
  \<^verbatim>\<open>if (existingPid) { try { process.kill(existingPid, "SIGTERM"); await sleep(200) } catch {}
  await Bun.write(FILE, "") }\<close>.
\<close>

definition terminate_existing :: "string \<Rightarrow> host \<Rightarrow> js_number option \<Rightarrow> world \<Rightarrow> world" where
  "terminate_existing pidFile h existingPid w =
    (case existingPid of
       None \<Rightarrow> w
     | Some p \<Rightarrow>
         if number_truthy p then
           (let (killed, w1) = process_kill h p SIGTERM w;
                w2 = (if killed then emit (Sleep 200) w1 else w1)
            in bun_write pidFile [] w2)
         else w)"

definition ALACRITTY_PID_FILE :: string where
  "ALACRITTY_PID_FILE = ''/tmp/claude-canvas-alacritty-pid''"

definition getAlacrittyPid :: "host \<Rightarrow> world \<Rightarrow> js_number option \<times> world" where
  "getAlacrittyPid h w = get_pid ALACRITTY_PID_FILE h w"

definition saveAlacrittyPid :: "int \<Rightarrow> world \<Rightarrow> world" where
  "saveAlacrittyPid p w = bun_write ALACRITTY_PID_FILE (js_String_num p) w"

definition createAlacrittyWindow :: "host \<Rightarrow> string \<Rightarrow> world \<Rightarrow> bool \<times> world" where
  "createAlacrittyWindow h command w =
    (let (p, w1) = spawn_detached h ''alacritty'' [''--title'', ''Canvas'', ''-e'', ''/bin/sh'', ''-c'', command] w
     in (case p of
           None \<Rightarrow> (False, w1)
         | Some n \<Rightarrow>
             if n \<noteq> 0 then
               (let w2 = saveAlacrittyPid n w1;
                    w3 = (if platform h = ''darwin'' then emit (SetTimeout 500 PositionAlacrittyWindow) w2
                          else w2)
                in (True, w3))
             else (False, w1)))"

definition spawnAlacritty :: "host \<Rightarrow> string \<Rightarrow> world \<Rightarrow> bool \<times> world" where
  "spawnAlacritty h command w =
    (let (existingPid, w1) = getAlacrittyPid h w
     in createAlacrittyWindow h command (terminate_existing ALACRITTY_PID_FILE h existingPid w1))"

definition VSCODE_PID_FILE :: string where
  "VSCODE_PID_FILE = ''/tmp/claude-canvas-vscode-pid''"

definition getVSCodePid :: "host \<Rightarrow> world \<Rightarrow> js_number option \<times> world" where
  "getVSCodePid h w = get_pid VSCODE_PID_FILE h w"

definition saveVSCodePid :: "int \<Rightarrow> world \<Rightarrow> world" where
  "saveVSCodePid p w = bun_write VSCODE_PID_FILE (js_String_num p) w"

definition vscode_advice :: string where
  "vscode_advice = [CHR 0x1B] @ ''[33m[Canvas] Started in new process. Use VS Code'' @ [CHR 0x27] @
     ''s split terminal (Cmd/Ctrl+Shift+5) to view side-by-side.'' @ [CHR 0x1B] @ ''[0m''"

definition createVSCodeTerminal :: "host \<Rightarrow> string \<Rightarrow> world \<Rightarrow> bool \<times> world" where
  "createVSCodeTerminal h command w =
    (let (p, w1) = spawn_detached h ''bash'' [''-c'', command] w
     in (case p of
           None \<Rightarrow> (False, w1)
         | Some n \<Rightarrow>
             if n \<noteq> 0 then (True, emit (ConsoleError vscode_advice) (saveVSCodePid n w1))
             else (False, w1)))"

definition spawnVSCode :: "host \<Rightarrow> string \<Rightarrow> world \<Rightarrow> bool \<times> world" where
  "spawnVSCode h command w =
    (let (existingPid, w1) = getVSCodePid h w
     in createVSCodeTerminal h command (terminate_existing VSCODE_PID_FILE h existingPid w1))"

definition GHOSTTY_PID_FILE :: string where
  "GHOSTTY_PID_FILE = ''/tmp/claude-canvas-ghostty-pid''"

definition getGhosttyPid :: "host \<Rightarrow> world \<Rightarrow> js_number option \<times> world" where
  "getGhosttyPid h w = get_pid GHOSTTY_PID_FILE h w"

definition saveGhosttyPid :: "int \<Rightarrow> world \<Rightarrow> world" where
  "saveGhosttyPid p w = bun_write GHOSTTY_PID_FILE (js_String_num p) w"

definition createGhosttyWindow :: "host \<Rightarrow> string \<Rightarrow> world \<Rightarrow> bool \<times> world" where
  "createGhosttyWindow h command w =
    (let (p, w1) =
           (if platform h = ''darwin'' then
              spawn_detached h ''open'' [''-na'', ''Ghostty.app'', ''--args'', ''-e'', ''/bin/sh'', ''-c'', command] w
            else spawn_detached h ''ghostty'' [''-e'', ''/bin/sh'', ''-c'', command] w)
     in (case p of
           None \<Rightarrow> (False, w1)
         | Some n \<Rightarrow>
             if n \<noteq> 0 then
               (True,
                if platform h = ''darwin'' then emit (SetTimeout 1000 FindGhosttyPidAndPosition) w1
                else saveGhosttyPid n w1)
             else (False, w1)))"

definition spawnGhostty :: "host \<Rightarrow> string \<Rightarrow> world \<Rightarrow> bool \<times> world" where
  "spawnGhostty h command w =
    (let (existingPid, w1) = getGhosttyPid h w
     in createGhosttyWindow h command (terminate_existing GHOSTTY_PID_FILE h existingPid w1))"

section \<open>The orchestrator (terminal.ts, spawnCanvas, lines 93-165)\<close>

record SpawnOptions =
  socketPath :: "string option"
  scenario :: "string option"

record SpawnResult =
  spawn_method :: string
  pid :: "int option"

datatype error = Error string

text \<open>
  Lines 101-119: the command line, and the write of the configuration to its file.
  \<^verbatim>\<open>options?.socketPath || `/tmp/canvas-${id}.sock`\<close> takes the default when there are no
  options, no socket path, or an empty one; \<^verbatim>\<open>if (configJson)\<close> and
  \<^verbatim>\<open>if (options?.scenario)\<close> are false for \<^verbatim>\<open>undefined\<close> and for the empty string.
\<close>

definition buildCommand ::
  "host \<Rightarrow> string \<Rightarrow> string \<Rightarrow> string option \<Rightarrow> SpawnOptions option \<Rightarrow> world \<Rightarrow> string \<times> world" where
  "buildCommand h kind ident configJson options w =
    (let scriptDir = replace_first ''/src'' [] (import_meta_dir h);
         runScript = scriptDir @ ''/run-canvas.sh'';
         optSocket = (case options of None \<Rightarrow> None | Some opts \<Rightarrow> socketPath opts);
         optScenario = (case options of None \<Rightarrow> None | Some opts \<Rightarrow> scenario opts);
         sock = (case optSocket of
                   None \<Rightarrow> ''/tmp/canvas-'' @ ident @ ''.sock''
                 | Some s \<Rightarrow> if s \<noteq> [] then s else ''/tmp/canvas-'' @ ident @ ''.sock'');
         command0 = runScript @ '' show '' @ kind @ '' --id '' @ ident;
         configFile = ''/tmp/canvas-config-'' @ ident @ ''.json'';
         (command1, w1) =
           (case configJson of
              None \<Rightarrow> (command0, w)
            | Some cfg \<Rightarrow>
                if cfg \<noteq> []
                then (command0 @ '' --config '' @ dq @ ''$(cat '' @ configFile @ '')'' @ dq,
                      bun_write configFile cfg w)
                else (command0, w));
         command2 = command1 @ '' --socket '' @ sock;
         command3 = (case optScenario of
                       None \<Rightarrow> command2
                     | Some sc \<Rightarrow> if sc \<noteq> [] then command2 @ '' --scenario '' @ sc else command2)
     in (command3, w1))"

definition unsupported_message :: string where
  "unsupported_message =
     ''Canvas requires a supported terminal: iTerm2, tmux, Kitty, WezTerm, Alacritty, VS Code, Ghostty, or Apple Terminal.''"

definition via :: "string \<Rightarrow> error + SpawnResult" where
  "via m = Inr \<lparr> spawn_method = m, pid = None \<rparr>"

definition spawnCanvas ::
  "host \<Rightarrow> string \<Rightarrow> string \<Rightarrow> string option \<Rightarrow> SpawnOptions option \<Rightarrow> world
     \<Rightarrow> (error + SpawnResult) \<times> world" where
  "spawnCanvas h kind ident configJson options w =
    (let env = detectTerminal (process_env h);
         (command, w0) = buildCommand h kind ident configJson options w;
         (r1, w1) = (if inITerm2 env then spawnITerm2 h command w0 else (False, w0))
     in if r1 then (via ''iterm2'', w1) else
        let (r2, w2) = (if inTmux env then spawnTmux h command w1 else (False, w1))
        in if r2 then (via ''tmux'', w2) else
        let (r3, w3) = (if inKitty env then spawnKitty h command w2 else (False, w2))
        in if r3 then (via ''kitty'', w3) else
        let (r4, w4) = (if inWezTerm env then spawnWezTerm h command w3 else (False, w3))
        in if r4 then (via ''wezterm'', w4) else
        let (r5, w5) = (if inAlacritty env then spawnAlacritty h command w4 else (False, w4))
        in if r5 then (via ''alacritty'', w5) else
        let (r6, w6) = (if inVSCode env then spawnVSCode h command w5 else (False, w5))
        in if r6 then (via ''vscode'', w6) else
        let (r7, w7) = (if inGhostty env then spawnGhostty h command w6 else (False, w6))
        in if r7 then (via ''ghostty'', w7) else
        let (r8, w8) = (if inAppleTerminal env then spawnAppleTerminal h command w7 else (False, w7))
        in if r8 then (via ''apple-terminal'', w8) else
        (Inl (Error unsupported_message), w8))"

section \<open>The eight backends under one name\<close>

datatype backend =
  ITerm2Backend | TmuxBackend | KittyBackend | WezTermBackend | AlacrittyBackend
  | VSCodeBackend | GhosttyBackend | AppleTerminalBackend

fun spawnBackend :: "host \<Rightarrow> backend \<Rightarrow> string \<Rightarrow> world \<Rightarrow> bool \<times> world" where
  "spawnBackend h ITerm2Backend c w = spawnITerm2 h c w"
| "spawnBackend h TmuxBackend c w = spawnTmux h c w"
| "spawnBackend h KittyBackend c w = spawnKitty h c w"
| "spawnBackend h WezTermBackend c w = spawnWezTerm h c w"
| "spawnBackend h AlacrittyBackend c w = spawnAlacritty h c w"
| "spawnBackend h VSCodeBackend c w = spawnVSCode h c w"
| "spawnBackend h GhosttyBackend c w = spawnGhostty h c w"
| "spawnBackend h AppleTerminalBackend c w = spawnAppleTerminal h c w"

fun present :: "TerminalEnvironment \<Rightarrow> backend \<Rightarrow> bool" where
  "present e ITerm2Backend = inITerm2 e"
| "present e TmuxBackend = inTmux e"
| "present e KittyBackend = inKitty e"
| "present e WezTermBackend = inWezTerm e"
| "present e AlacrittyBackend = inAlacritty e"
| "present e VSCodeBackend = inVSCode e"
| "present e GhosttyBackend = inGhostty e"
| "present e AppleTerminalBackend = inAppleTerminal e"

fun backend_name :: "backend \<Rightarrow> string" where
  "backend_name ITerm2Backend = ''iterm2''"
| "backend_name TmuxBackend = ''tmux''"
| "backend_name KittyBackend = ''kitty''"
| "backend_name WezTermBackend = ''wezterm''"
| "backend_name AlacrittyBackend = ''alacritty''"
| "backend_name VSCodeBackend = ''vscode''"
| "backend_name GhosttyBackend = ''ghostty''"
| "backend_name AppleTerminalBackend = ''apple-terminal''"

fun registry_file :: "backend \<Rightarrow> string" where
  "registry_file ITerm2Backend = ITERM2_SESSION_FILE"
| "registry_file TmuxBackend = CANVAS_PANE_FILE"
| "registry_file KittyBackend = KITTY_WINDOW_FILE"
| "registry_file WezTermBackend = WEZTERM_PANE_FILE"
| "registry_file AlacrittyBackend = ALACRITTY_PID_FILE"
| "registry_file VSCodeBackend = VSCODE_PID_FILE"
| "registry_file GhosttyBackend = GHOSTTY_PID_FILE"
| "registry_file AppleTerminalBackend = APPLE_TERMINAL_WINDOW_FILE"

text \<open>The order in which \<^verbatim>\<open>spawnCanvas\<close> goes through the backends.\<close>

definition attempt_order :: "backend list" where
  "attempt_order =
     [ITerm2Backend, TmuxBackend, KittyBackend, WezTermBackend, AlacrittyBackend,
      VSCodeBackend, GhosttyBackend, AppleTerminalBackend]"

text \<open>
  The orchestration stated as a loop, for comparison with \<^verbatim>\<open>spawnCanvas\<close>: go
  through the backends in order; attempt each one whose presence flag is set; return at
  the first attempt that succeeds; fail when the list is exhausted.
\<close>

fun try_in_order ::
  "host \<Rightarrow> TerminalEnvironment \<Rightarrow> string \<Rightarrow> backend list \<Rightarrow> world \<Rightarrow> (error + SpawnResult) \<times> world" where
  "try_in_order h e c [] w = (Inl (Error unsupported_message), w)"
| "try_in_order h e c (b # bs) w =
     (if present e b then
        (let (ok, w1) = spawnBackend h b c w
         in if ok then (via (backend_name b), w1) else try_in_order h e c bs w1)
      else try_in_order h e c bs w)"

section \<open>Probe, reuse and creation, by backend\<close>

text \<open>
  The persisted identifier is a string (pane, session and window ids of tmux, iTerm2,
  WezTerm and Kitty) or a number (the window id of Apple Terminal and the process ids).
  \<^verbatim>\<open>if (existing...)\<close> tests it: the empty string and 0 are false.
\<close>

datatype handle = StrHandle string | NumHandle js_number

fun handle_truthy :: "handle \<Rightarrow> bool" where
  "handle_truthy (StrHandle s) = (s \<noteq> [])"
| "handle_truthy (NumHandle n) = number_truthy n"

definition str_probe :: "string option \<times> world \<Rightarrow> handle option \<times> world" where
  "str_probe r = (map_option StrHandle (fst r), snd r)"

definition num_probe :: "js_number option \<times> world \<Rightarrow> handle option \<times> world" where
  "num_probe r = (map_option NumHandle (fst r), snd r)"

text \<open>
  The probe each \<^verbatim>\<open>spawn...\<close> function starts with. Kitty's is guarded by
  \<^verbatim>\<open>isKittyRemoteControlAvailable()\<close>: without remote control no probe is made.
\<close>

fun probe :: "host \<Rightarrow> backend \<Rightarrow> world \<Rightarrow> handle option \<times> world" where
  "probe h ITerm2Backend w = str_probe (getITerm2SessionId h w)"
| "probe h TmuxBackend w = str_probe (getCanvasPaneId h w)"
| "probe h KittyBackend w =
     (let (remote, w1) = isKittyRemoteControlAvailable h w
      in if remote then str_probe (getKittyWindowId h w1) else (None, w1))"
| "probe h WezTermBackend w = str_probe (getWezTermPaneId h w)"
| "probe h AlacrittyBackend w = num_probe (getAlacrittyPid h w)"
| "probe h VSCodeBackend w = num_probe (getVSCodePid h w)"
| "probe h GhosttyBackend w = num_probe (getGhosttyPid h w)"
| "probe h AppleTerminalBackend w = num_probe (getAppleTerminalWindowId h w)"

fun create :: "host \<Rightarrow> backend \<Rightarrow> string \<Rightarrow> world \<Rightarrow> bool \<times> world" where
  "create h ITerm2Backend c w = createITerm2SplitPane h c w"
| "create h TmuxBackend c w = createNewPane h c w"
| "create h KittyBackend c w = createKittySplitPane h c w"
| "create h WezTermBackend c w = createWezTermSplitPane h c w"
| "create h AlacrittyBackend c w = createAlacrittyWindow h c w"
| "create h VSCodeBackend c w = createVSCodeTerminal h c w"
| "create h GhosttyBackend c w = createGhosttyWindow h c w"
| "create h AppleTerminalBackend c w = createAppleTerminalWindow h c w"

text \<open>Five backends have a function that drives an existing session; three have none.\<close>

fun has_reuse_transport :: "backend \<Rightarrow> bool" where
  "has_reuse_transport AlacrittyBackend = False"
| "has_reuse_transport VSCodeBackend = False"
| "has_reuse_transport GhosttyBackend = False"
| "has_reuse_transport b = True"

fun reuse :: "host \<Rightarrow> backend \<Rightarrow> handle \<Rightarrow> string \<Rightarrow> world \<Rightarrow> bool \<times> world" where
  "reuse h ITerm2Backend (StrHandle s) c w = reuseITerm2Session h s c w"
| "reuse h TmuxBackend (StrHandle s) c w = reuseExistingPane h s c w"
| "reuse h KittyBackend (StrHandle s) c w = reuseKittyWindow h s c w"
| "reuse h WezTermBackend (StrHandle s) c w = reuseWezTermPane h s c w"
| "reuse h AppleTerminalBackend (NumHandle n) c w = reuseAppleTerminalWindow h n c w"
| "reuse h b x c w = (False, w)"

text \<open>The process the three backends without a transport terminate.\<close>

fun handle_pid :: "handle \<Rightarrow> js_number option" where
  "handle_pid (NumHandle n) = Some n"
| "handle_pid (StrHandle s) = None"

text \<open>
  The event by which a backend's creation primitive shows in the trace: the child
  process that splits a pane or opens a window, with the command to run.
\<close>

fun is_create :: "backend \<Rightarrow> string \<Rightarrow> event \<Rightarrow> bool" where
  "is_create ITerm2Backend c e = (e = Spawn ''osascript'' [''-e'', iterm2_create_script c])"
| "is_create TmuxBackend c e = (e = Spawn ''tmux'' (tmux_split_args c))"
| "is_create KittyBackend c e =
     (e = Spawn ''kitty'' (kitty_launch_args c) \<or> e = SpawnDetached ''kitty'' (kitty_window_args c))"
| "is_create WezTermBackend c e =
     (e = Spawn ''wezterm''
            [''cli'', ''split-pane'', ''--right'', ''--percent'', ''67'', ''--'', ''bash'', ''-c'', c])"
| "is_create AlacrittyBackend c e =
     (e = SpawnDetached ''alacritty'' [''--title'', ''Canvas'', ''-e'', ''/bin/sh'', ''-c'', c])"
| "is_create VSCodeBackend c e = (e = SpawnDetached ''bash'' [''-c'', c])"
| "is_create GhosttyBackend c e =
     (e = SpawnDetached ''open'' [''-na'', ''Ghostty.app'', ''--args'', ''-e'', ''/bin/sh'', ''-c'', c]
      \<or> e = SpawnDetached ''ghostty'' [''-e'', ''/bin/sh'', ''-c'', c])"
| "is_create AppleTerminalBackend c e = (e = Spawn ''osascript'' [''-e'', apple_create_script c])"

definition creations :: "backend \<Rightarrow> string \<Rightarrow> world \<Rightarrow> nat" where
  "creations b c w = length (filter (is_create b c) (trace w))"

text \<open>Whether a probe is made at all: there is an entry, and it can be probed.\<close>

definition str_entry :: "world \<Rightarrow> string \<Rightarrow> bool" where
  "str_entry w f = (case files w f of None \<Rightarrow> False | Some txt \<Rightarrow> trim txt \<noteq> [])"

definition num_entry :: "world \<Rightarrow> string \<Rightarrow> bool" where
  "num_entry w f = (case files w f of None \<Rightarrow> False | Some txt \<Rightarrow> parseInt (trim txt) \<noteq> None)"

fun probe_made :: "host \<Rightarrow> backend \<Rightarrow> world \<Rightarrow> bool" where
  "probe_made h TmuxBackend w = (files w CANVAS_PANE_FILE \<noteq> None)"
| "probe_made h ITerm2Backend w = str_entry w ITERM2_SESSION_FILE"
| "probe_made h WezTermBackend w = str_entry w WEZTERM_PANE_FILE"
| "probe_made h KittyBackend w =
     (fst (isKittyRemoteControlAvailable h w) \<and> str_entry w KITTY_WINDOW_FILE)"
| "probe_made h AlacrittyBackend w = num_entry w ALACRITTY_PID_FILE"
| "probe_made h VSCodeBackend w = num_entry w VSCODE_PID_FILE"
| "probe_made h GhosttyBackend w = num_entry w GHOSTTY_PID_FILE"
| "probe_made h AppleTerminalBackend w = num_entry w APPLE_TERMINAL_WINDOW_FILE"

section \<open>The query client (sendCanvasRequest)\<close>

text \<open>
  \<^verbatim>\<open>sendCanvasRequest\<close> returns a promise, arms a timer and opens one connection with
  four handlers (\<^verbatim>\<open>data\<close>, \<^verbatim>\<open>open\<close>, \<^verbatim>\<open>close\<close>, \<^verbatim>\<open>error\<close>) that share the flag
  \<^verbatim>\<open>resolved\<close>. The model keeps the flag, whether the timer is still pending, the state
  of the promise (\<open>None\<close>: pending) and what the client did to the socket and the
  timer. The handlers and the timer callback are translated one by one; the runtime's
  event loop is a list of socket events with their arrival times in milliseconds, in
  the order they arrive: the events that arrive before the timer is due are handled
  first, then the timer callback runs if the timer has not been cleared, then the rest.

  \<^verbatim>\<open>JSON.stringify(undefined)\<close> is \<^verbatim>\<open>undefined\<close>, not a string: \<open>Resolved None\<close>.
\<close>

datatype sock_event = Open | Data string | CloseEv | ErrorEv string

datatype rejection = TimeoutWaitingForResponse | SocketError string

datatype settled = Resolved "string option" | Rejected rejection

datatype client_action =
  SetTimer nat | ClearTimer | Connect string | SocketWrite string | SocketEnd

record request_state =
  resolved :: bool
  timer_pending :: bool
  promise :: "settled option"
  actions :: "client_action list"

text \<open>A promise keeps its first settlement.\<close>

definition settle :: "settled \<Rightarrow> request_state \<Rightarrow> request_state" where
  "settle r s = (case promise s of None \<Rightarrow> s\<lparr>promise := Some r\<rparr> | Some x \<Rightarrow> s)"

definition clearTimeout :: "request_state \<Rightarrow> request_state" where
  "clearTimeout s = s\<lparr>timer_pending := False, actions := actions s @ [ClearTimer]\<rparr>"

definition js_stringify :: "host \<Rightarrow> jsval \<Rightarrow> string option" where
  "js_stringify h v = (if v = JUndefined then None else Some (JSON_stringify h v))"

text \<open>The timer callback; it runs only if the timer was not cleared.\<close>

definition on_timeout :: "request_state \<Rightarrow> request_state" where
  "on_timeout s =
    (if timer_pending s then
       (let s1 = s\<lparr>timer_pending := False\<rparr>
        in if \<not> resolved s1 then settle (Rejected TimeoutWaitingForResponse) (s1\<lparr>resolved := True\<rparr>)
           else s1)
     else s)"

text \<open>
  \<^verbatim>\<open>data\<close>: the flag is set and the timer cleared before the reply is parsed, so a reply
  that does not parse, or parses to \<^verbatim>\<open>null\<close>, throws in the handler and leaves the
  promise pending.
\<close>

definition on_data :: "host \<Rightarrow> string \<Rightarrow> string \<Rightarrow> request_state \<Rightarrow> request_state" where
  "on_data h expectedResponseType d s =
    (if resolved s then s
     else
       (let s1 = (clearTimeout s)\<lparr>resolved := True\<rparr>
        in (case JSON_parse h (trim d) of
              None \<Rightarrow> s1
            | Some response \<Rightarrow>
                (case js_get response ''type'' of
                   None \<Rightarrow> s1
                 | Some ty \<Rightarrow>
                     let s2 =
                       (if ty = JStr expectedResponseType then
                          (case js_get response ''data'' of
                             None \<Rightarrow> s1
                           | Some payload \<Rightarrow> settle (Resolved (js_stringify h payload)) s1)
                        else settle (Resolved (js_stringify h JNull)) s1)
                     in s2\<lparr>actions := actions s2 @ [SocketEnd]\<rparr>))))"

definition on_open :: "host \<Rightarrow> string \<Rightarrow> request_state \<Rightarrow> request_state" where
  "on_open h requestType s =
    (let msg = JSON_stringify h (JObj [(''type'', JStr requestType)])
     in s\<lparr>actions := actions s @ [SocketWrite (msg @ [CHR 0x0A])]\<rparr>)"

definition on_close :: "host \<Rightarrow> request_state \<Rightarrow> request_state" where
  "on_close h s =
    (if \<not> resolved s then settle (Resolved (js_stringify h JNull)) (clearTimeout (s\<lparr>resolved := True\<rparr>))
     else s)"

definition on_error :: "string \<Rightarrow> request_state \<Rightarrow> request_state" where
  "on_error err s =
    (if \<not> resolved s then settle (Rejected (SocketError err)) (clearTimeout (s\<lparr>resolved := True\<rparr>))
     else s)"

fun handle_event :: "host \<Rightarrow> string \<Rightarrow> string \<Rightarrow> request_state \<Rightarrow> sock_event \<Rightarrow> request_state" where
  "handle_event h requestType expected s Open = on_open h requestType s"
| "handle_event h requestType expected s (Data d) = on_data h expected d s"
| "handle_event h requestType expected s CloseEv = on_close h s"
| "handle_event h requestType expected s (ErrorEv err) = on_error err s"

definition handle_all ::
  "host \<Rightarrow> string \<Rightarrow> string \<Rightarrow> request_state \<Rightarrow> (nat \<times> sock_event) list \<Rightarrow> request_state" where
  "handle_all h requestType expected s arrivals =
     foldl (handle_event h requestType expected) s (map snd arrivals)"

definition sendCanvasRequest ::
  "host \<Rightarrow> string \<Rightarrow> string \<Rightarrow> string \<Rightarrow> nat option \<Rightarrow> (nat \<times> sock_event) list \<Rightarrow> request_state" where
  "sendCanvasRequest h sockPath requestType expectedResponseType timeoutMs arrivals =
    (let ms = (case timeoutMs of None \<Rightarrow> 2000 | Some n \<Rightarrow> n);
         s0 = \<lparr> resolved = False, timer_pending = True, promise = None,
                actions = [SetTimer ms, Connect sockPath] \<rparr>;
         s1 = handle_all h requestType expectedResponseType s0
                (takeWhile (\<lambda>a. fst a < ms) arrivals);
         s2 = on_timeout s1
     in handle_all h requestType expectedResponseType s2 (dropWhile (\<lambda>a. fst a < ms) arrivals))"

definition connection_attempts :: "request_state \<Rightarrow> nat" where
  "connection_attempts s = length (filter (\<lambda>a. case a of Connect p \<Rightarrow> True | _ \<Rightarrow> False) (actions s))"

section \<open>Example machines\<close>

text \<open>
  Concrete hosts and disks on which the theorems below are instantiated. On
  \<open>machine penv answers alive\<close> every child process gets the outcome
  \<open>answers command args\<close>, every detached child gets the process id 5000, and a signal
  is delivered exactly when \<open>alive\<close>.
\<close>

text \<open>
  A serializer for the examples; it agrees with \<^verbatim>\<open>JSON.stringify\<close> on values whose
  strings need no escaping.
\<close>

fun example_stringify :: "jsval \<Rightarrow> string" where
  "example_stringify JUndefined = ''null''"
| "example_stringify JNull = ''null''"
| "example_stringify (JBool b) = (if b then ''true'' else ''false'')"
| "example_stringify (JNum n) = js_String_num n"
| "example_stringify (JStr s) = dq @ s @ dq"
| "example_stringify (JArr xs) = ''['' @ js_join (map example_stringify xs) @ '']''"
| "example_stringify (JObj kvs) =
     ''{'' @ js_join (map (\<lambda>kv. dq @ fst kv @ dq @ '':'' @ example_stringify (snd kv)) kvs) @ ''}''"

definition selection_reply :: string where
  "selection_reply =
     ''{'' @ dq @ ''type'' @ dq @ '':'' @ dq @ ''selection'' @ dq @ '','' @ dq @ ''data'' @ dq @ '':['' @
     dq @ ''a'' @ dq @ '']}''"

definition example_parse :: "string \<Rightarrow> jsval option" where
  "example_parse s =
     (if s = selection_reply
      then Some (JObj [(''type'', JStr ''selection''), (''data'', JArr [JStr ''a''])])
      else None)"

definition machine :: "process_env \<Rightarrow> (string \<Rightarrow> string list \<Rightarrow> proc_outcome) \<Rightarrow> bool \<Rightarrow> host" where
  "machine penv answers alive =
    \<lparr> exec = (\<lambda>tr. answers), detached_pid = (\<lambda>tr c args. Some 5000), kill_ok = (\<lambda>tr p sg. alive),
      inexact_String = (\<lambda>n. ''Infinity''), platform = ''linux'', import_meta_dir = ''/opt/canvas/src'', process_env = penv,
      JSON_parse = example_parse, JSON_stringify = example_stringify \<rparr>"

definition disk :: "(string \<times> string) list \<Rightarrow> world" where
  "disk kvs = \<lparr> files = map_of kvs, trace = [] \<rparr>"

text \<open>
  Kitty running tmux, with every child process exiting with status 1 (tmux cannot split,
  Kitty's remote control is off) and no process to signal.
\<close>

definition failing_machine :: host where
  "failing_machine =
     machine [''TMUX'' \<mapsto> ''/tmp/tmux-1000/default,1,0'', ''KITTY_PID'' \<mapsto> ''77'']
       (\<lambda>c args. Closed (Some 1) []) False"

text \<open>
  tmux with the pane \<^verbatim>\<open>%7\<close> alive; \<^verbatim>\<open>send-keys\<close> and every other child process exit
  with the given status; every process can be signalled.
\<close>

definition tmux_machine :: "int \<Rightarrow> host" where
  "tmux_machine code =
     machine [''TMUX'' \<mapsto> ''/tmp/tmux-1000/default,1,0'']
       (\<lambda>c args. if c = ''tmux'' \<and> take 1 args = [''display-message'']
                  then Closed (Some 0) (''%7'' @ [CHR 0x0A])
                  else Closed (Some code) [])
       True"

text \<open>
  tmux with the pane \<^verbatim>\<open>%7\<close> alive, where sending the interrupt exits with status 1 and
  every other child process with status 0.
\<close>

definition interrupt_refused_machine :: host where
  "interrupt_refused_machine =
     machine [''TMUX'' \<mapsto> ''/tmp/tmux-1000/default,1,0'']
       (\<lambda>c args. if c = ''tmux'' \<and> take 1 args = [''display-message'']
                  then Closed (Some 0) (''%7'' @ [CHR 0x0A])
                  else if c = ''tmux'' \<and> drop 3 args = [''C-c''] then Closed (Some 1) []
                  else Closed (Some 0) [])
       True"

text \<open>A machine with none of the environment variables set.\<close>

definition bare_machine :: host where
  "bare_machine = machine Map.empty (\<lambda>c args. SpawnFailed) False"

definition demo_command :: string where
  "demo_command = ''/opt/canvas/run-canvas.sh show calendar --id demo-1 --socket /tmp/canvas-demo-1.sock''"

section \<open>Properties of detection\<close>

lemma detect_flags:
  "inTmux (detectTerminal penv) = env_truthy penv ''TMUX''"
  "inITerm2 (detectTerminal penv) =
     (term_program_is penv ''iTerm.app'' \<or> env_truthy penv ''ITERM_SESSION_ID'')"
  "inAppleTerminal (detectTerminal penv) = term_program_is penv ''Apple_Terminal''"
  "inKitty (detectTerminal penv) = (term_program_is penv ''kitty'' \<or> env_truthy penv ''KITTY_PID'')"
  "inWezTerm (detectTerminal penv) = term_program_is penv ''WezTerm''"
  "inAlacritty (detectTerminal penv) =
     (term_program_is penv ''Alacritty'' \<or> env_truthy penv ''ALACRITTY_SOCKET'')"
  "inVSCode (detectTerminal penv) =
     (term_program_is penv ''vscode'' \<or> env_truthy penv ''VSCODE_INJECTION'')"
  "inGhostty (detectTerminal penv) =
     (term_program_is penv ''ghostty'' \<or> env_truthy penv ''GHOSTTY_RESOURCES_DIR'')"
  by (simp_all add: detectTerminal_def Let_def split: prod.splits)

lemma detect_type:
  "terminalType (detectTerminal penv) =
     (let e = detectTerminal penv in
      if inTmux e then Tmux
      else if inITerm2 e then Iterm2
      else if inKitty e then Kitty
      else if inWezTerm e then Wezterm
      else if inAlacritty e then Alacritty
      else if inVSCode e then Vscode
      else if inGhostty e then Ghostty
      else if inAppleTerminal e then AppleTerminal
      else NoTerminal)"
  by (simp add: detectTerminal_def Let_def split: prod.splits)

lemma detect_restrict: "detectTerminal (penv |` detect_vars) = detectTerminal penv"
  by (simp add: detectTerminal_def env_truthy_def term_program_is_def detect_vars_def restrict_map_def)

text \<open>
  C2. \<^verbatim>\<open>detectTerminal\<close> is a function of the seven environment variables it reads
  and of nothing else. Each presence flag is decided by those variables alone: a
  variable counts when it is set to a non-empty text, and \<^verbatim>\<open>TERM_PROGRAM\<close> when it is
  exactly the product's name. The classification is, for every combination of the
  flags, the one value fixed by the precedence
  tmux > iTerm2 > Kitty > WezTerm > Alacritty > VS Code > Ghostty > Apple Terminal > none:
  each of the nine classifications is returned exactly when its own flag is set and no
  flag of higher precedence is.
\<close>

theorem detectTerminal_exclusive_precedence:
  "detectTerminal
     (penv |` {''TMUX'', ''TERM_PROGRAM'', ''ITERM_SESSION_ID'', ''KITTY_PID'', ''ALACRITTY_SOCKET'',
              ''VSCODE_INJECTION'', ''GHOSTTY_RESOURCES_DIR''}) = detectTerminal penv \<and>
   (let e = detectTerminal penv; t = terminalType e in
     inTmux e = (\<exists>v. penv ''TMUX'' = Some v \<and> v \<noteq> []) \<and>
     inITerm2 e = (penv ''TERM_PROGRAM'' = Some ''iTerm.app'' \<or>
                   (\<exists>v. penv ''ITERM_SESSION_ID'' = Some v \<and> v \<noteq> [])) \<and>
     inAppleTerminal e = (penv ''TERM_PROGRAM'' = Some ''Apple_Terminal'') \<and>
     inKitty e = (penv ''TERM_PROGRAM'' = Some ''kitty'' \<or>
                  (\<exists>v. penv ''KITTY_PID'' = Some v \<and> v \<noteq> [])) \<and>
     inWezTerm e = (penv ''TERM_PROGRAM'' = Some ''WezTerm'') \<and>
     inAlacritty e = (penv ''TERM_PROGRAM'' = Some ''Alacritty'' \<or>
                      (\<exists>v. penv ''ALACRITTY_SOCKET'' = Some v \<and> v \<noteq> [])) \<and>
     inVSCode e = (penv ''TERM_PROGRAM'' = Some ''vscode'' \<or>
                   (\<exists>v. penv ''VSCODE_INJECTION'' = Some v \<and> v \<noteq> [])) \<and>
     inGhostty e = (penv ''TERM_PROGRAM'' = Some ''ghostty'' \<or>
                    (\<exists>v. penv ''GHOSTTY_RESOURCES_DIR'' = Some v \<and> v \<noteq> [])) \<and>
     (t = Tmux) = inTmux e \<and>
     (t = Iterm2) = (\<not> inTmux e \<and> inITerm2 e) \<and>
     (t = Kitty) = (\<not> inTmux e \<and> \<not> inITerm2 e \<and> inKitty e) \<and>
     (t = Wezterm) = (\<not> inTmux e \<and> \<not> inITerm2 e \<and> \<not> inKitty e \<and> inWezTerm e) \<and>
     (t = Alacritty) =
        (\<not> inTmux e \<and> \<not> inITerm2 e \<and> \<not> inKitty e \<and> \<not> inWezTerm e \<and> inAlacritty e) \<and>
     (t = Vscode) =
        (\<not> inTmux e \<and> \<not> inITerm2 e \<and> \<not> inKitty e \<and> \<not> inWezTerm e \<and> \<not> inAlacritty e \<and>
         inVSCode e) \<and>
     (t = Ghostty) =
        (\<not> inTmux e \<and> \<not> inITerm2 e \<and> \<not> inKitty e \<and> \<not> inWezTerm e \<and> \<not> inAlacritty e \<and>
         \<not> inVSCode e \<and> inGhostty e) \<and>
     (t = AppleTerminal) =
        (\<not> inTmux e \<and> \<not> inITerm2 e \<and> \<not> inKitty e \<and> \<not> inWezTerm e \<and> \<not> inAlacritty e \<and>
         \<not> inVSCode e \<and> \<not> inGhostty e \<and> inAppleTerminal e) \<and>
     (t = NoTerminal) =
        (\<not> inTmux e \<and> \<not> inITerm2 e \<and> \<not> inKitty e \<and> \<not> inWezTerm e \<and> \<not> inAlacritty e \<and>
         \<not> inVSCode e \<and> \<not> inGhostty e \<and> \<not> inAppleTerminal e))"
proof -
  have truthy: "\<And>x. env_truthy penv x = (\<exists>v. penv x = Some v \<and> v \<noteq> [])"
    by (simp add: env_truthy_def split: option.splits)
  have flags:
    "inTmux (detectTerminal penv) = (\<exists>v. penv ''TMUX'' = Some v \<and> v \<noteq> [])"
    "inITerm2 (detectTerminal penv) =
       (penv ''TERM_PROGRAM'' = Some ''iTerm.app'' \<or> (\<exists>v. penv ''ITERM_SESSION_ID'' = Some v \<and> v \<noteq> []))"
    "inAppleTerminal (detectTerminal penv) = (penv ''TERM_PROGRAM'' = Some ''Apple_Terminal'')"
    "inKitty (detectTerminal penv) =
       (penv ''TERM_PROGRAM'' = Some ''kitty'' \<or> (\<exists>v. penv ''KITTY_PID'' = Some v \<and> v \<noteq> []))"
    "inWezTerm (detectTerminal penv) = (penv ''TERM_PROGRAM'' = Some ''WezTerm'')"
    "inAlacritty (detectTerminal penv) =
       (penv ''TERM_PROGRAM'' = Some ''Alacritty'' \<or> (\<exists>v. penv ''ALACRITTY_SOCKET'' = Some v \<and> v \<noteq> []))"
    "inVSCode (detectTerminal penv) =
       (penv ''TERM_PROGRAM'' = Some ''vscode'' \<or> (\<exists>v. penv ''VSCODE_INJECTION'' = Some v \<and> v \<noteq> []))"
    "inGhostty (detectTerminal penv) =
       (penv ''TERM_PROGRAM'' = Some ''ghostty'' \<or>
        (\<exists>v. penv ''GHOSTTY_RESOURCES_DIR'' = Some v \<and> v \<noteq> []))"
    by (simp_all only: detect_flags truthy term_program_is_def)
  have cls: "terminalType (detectTerminal penv) =
     (if inTmux (detectTerminal penv) then Tmux
      else if inITerm2 (detectTerminal penv) then Iterm2
      else if inKitty (detectTerminal penv) then Kitty
      else if inWezTerm (detectTerminal penv) then Wezterm
      else if inAlacritty (detectTerminal penv) then Alacritty
      else if inVSCode (detectTerminal penv) then Vscode
      else if inGhostty (detectTerminal penv) then Ghostty
      else if inAppleTerminal (detectTerminal penv) then AppleTerminal
      else NoTerminal)"
    using detect_type[of penv] by (simp only: Let_def)
  have prec:
    "(terminalType (detectTerminal penv) = Tmux) = inTmux (detectTerminal penv)"
    "(terminalType (detectTerminal penv) = Iterm2) =
       (\<not> inTmux (detectTerminal penv) \<and> inITerm2 (detectTerminal penv))"
    "(terminalType (detectTerminal penv) = Kitty) =
       (\<not> inTmux (detectTerminal penv) \<and> \<not> inITerm2 (detectTerminal penv) \<and> inKitty (detectTerminal penv))"
    "(terminalType (detectTerminal penv) = Wezterm) =
       (\<not> inTmux (detectTerminal penv) \<and> \<not> inITerm2 (detectTerminal penv) \<and>
        \<not> inKitty (detectTerminal penv) \<and> inWezTerm (detectTerminal penv))"
    "(terminalType (detectTerminal penv) = Alacritty) =
       (\<not> inTmux (detectTerminal penv) \<and> \<not> inITerm2 (detectTerminal penv) \<and>
        \<not> inKitty (detectTerminal penv) \<and> \<not> inWezTerm (detectTerminal penv) \<and>
        inAlacritty (detectTerminal penv))"
    "(terminalType (detectTerminal penv) = Vscode) =
       (\<not> inTmux (detectTerminal penv) \<and> \<not> inITerm2 (detectTerminal penv) \<and>
        \<not> inKitty (detectTerminal penv) \<and> \<not> inWezTerm (detectTerminal penv) \<and>
        \<not> inAlacritty (detectTerminal penv) \<and> inVSCode (detectTerminal penv))"
    "(terminalType (detectTerminal penv) = Ghostty) =
       (\<not> inTmux (detectTerminal penv) \<and> \<not> inITerm2 (detectTerminal penv) \<and>
        \<not> inKitty (detectTerminal penv) \<and> \<not> inWezTerm (detectTerminal penv) \<and>
        \<not> inAlacritty (detectTerminal penv) \<and> \<not> inVSCode (detectTerminal penv) \<and>
        inGhostty (detectTerminal penv))"
    "(terminalType (detectTerminal penv) = AppleTerminal) =
       (\<not> inTmux (detectTerminal penv) \<and> \<not> inITerm2 (detectTerminal penv) \<and>
        \<not> inKitty (detectTerminal penv) \<and> \<not> inWezTerm (detectTerminal penv) \<and>
        \<not> inAlacritty (detectTerminal penv) \<and> \<not> inVSCode (detectTerminal penv) \<and>
        \<not> inGhostty (detectTerminal penv) \<and> inAppleTerminal (detectTerminal penv))"
    "(terminalType (detectTerminal penv) = NoTerminal) =
       (\<not> inTmux (detectTerminal penv) \<and> \<not> inITerm2 (detectTerminal penv) \<and>
        \<not> inKitty (detectTerminal penv) \<and> \<not> inWezTerm (detectTerminal penv) \<and>
        \<not> inAlacritty (detectTerminal penv) \<and> \<not> inVSCode (detectTerminal penv) \<and>
        \<not> inGhostty (detectTerminal penv) \<and> \<not> inAppleTerminal (detectTerminal penv))"
    unfolding cls by simp_all
  show ?thesis
    unfolding Let_def
    by (intro conjI detect_restrict[unfolded detect_vars_def] flags prec)
qed

section \<open>Effects and the count of creations\<close>

lemma trace_emit: "trace (emit e w) = trace w @ [e]"
  and files_emit: "files (emit e w) = files w"
  by (simp_all add: emit_def)

lemma trace_bun_write: "trace (bun_write p t w) = trace w @ [Write p t]"
  and files_bun_write: "files (bun_write p t w) = (files w)(p \<mapsto> t)"
  by (simp_all add: bun_write_def emit_def)

lemma not_create:
  "\<not> is_create b c (Write p t)"
  "\<not> is_create b c (SpawnSync cmd args tmo)"
  "\<not> is_create b c (Kill n sg)"
  "\<not> is_create b c (Sleep ms)"
  "\<not> is_create b c (SetTimeout ms d)"
  "\<not> is_create b c (ConsoleError s)"
  by (cases b; simp)+

lemma creations_emit:
  "creations b c (emit e w) = creations b c w + (if is_create b c e then 1 else 0)"
  by (simp add: creations_def emit_def)

lemma creations_bun_write: "creations b c (bun_write p t w) = creations b c w"
  by (simp add: creations_def bun_write_def emit_def not_create)

lemma creations_probe_tmux: "creations b c (snd (getCanvasPaneId h w)) = creations b c w"
  by (simp add: getCanvasPaneId_def Let_def spawnSync_def creations_emit creations_bun_write not_create
      split: option.splits prod.splits proc_outcome.splits)

lemma creations_get_pid: "creations b c (snd (get_pid f h w)) = creations b c w"
  by (simp add: get_pid_def Let_def process_kill_def creations_emit creations_bun_write not_create
      split: option.splits prod.splits)

lemma creations_probe: "creations b c (snd (probe h b' w)) = creations b c w"
  by (cases b')
     (simp_all add: str_probe_def num_probe_def creations_probe_tmux creations_get_pid
        getAlacrittyPid_def getVSCodePid_def getGhosttyPid_def
        getITerm2SessionId_def getWezTermPaneId_def getKittyWindowId_def getAppleTerminalWindowId_def
        isKittyRemoteControlAvailable_def
        Let_def spawnSync_def creations_emit creations_bun_write not_create
        split: option.splits prod.splits)

lemma scripts_differ:
  "iterm2_create_script c \<noteq> iterm2_reuse_script s c'"
  "apple_create_script c \<noteq> apple_reuse_script h n c'"
  by (simp_all add: iterm2_create_script_def iterm2_reuse_script_def apple_create_script_def
      apple_reuse_script_def dq_def)

lemma creations_create: "creations b c (snd (create h b c w)) = creations b c w + 1"
  by (cases b)
     (simp_all add: createITerm2SplitPane_def createNewPane_def createKittySplitPane_def
        createWezTermSplitPane_def createAlacrittyWindow_def createVSCodeTerminal_def
        createGhosttyWindow_def createAppleTerminalWindow_def
        saveITerm2SessionId_def saveCanvasPaneId_def saveKittyWindowId_def saveWezTermPaneId_def
        saveAlacrittyPid_def saveVSCodePid_def saveGhosttyPid_def saveAppleTerminalWindowId_def
        isKittyRemoteControlAvailable_def
        Let_def spawn_def spawnSync_def spawn_detached_def creations_emit creations_bun_write not_create
        split: option.splits prod.splits proc_outcome.splits)

lemma creations_reuse: "creations b c (snd (reuse h b x c' w)) = creations b c w"
  by (cases "(h, b, x, c', w)" rule: reuse.cases)
     (simp_all add: reuseITerm2Session_def reuseExistingPane_def reuseKittyWindow_def
        reuseWezTermPane_def reuseAppleTerminalWindow_def scripts_differ scripts_differ[symmetric]
        tmux_split_args_def kitty_launch_args_def
        Let_def spawn_def creations_emit not_create
        split: prod.splits proc_outcome.splits)

lemma creations_terminate: "creations b c (terminate_existing f h p w) = creations b c w"
  by (simp add: terminate_existing_def Let_def process_kill_def creations_emit creations_bun_write
      not_create split: option.splits prod.splits)

lemma spawnBackend_decomp:
  "spawnBackend h b c w =
     (case probe h b w of
        (None, w1) \<Rightarrow> create h b c w1
      | (Some x, w1) \<Rightarrow>
          if handle_truthy x then
            (if has_reuse_transport b then
               (let (reused, w2) = reuse h b x c w1
                in if reused then (True, w2)
                   else create h b c (bun_write (registry_file b) [] w2))
             else create h b c (terminate_existing (registry_file b) h (handle_pid x) w1))
          else create h b c w1)"
  by (cases b)
     (auto simp add: spawnITerm2_def spawnTmux_def spawnKitty_def spawnWezTerm_def spawnAlacritty_def
        spawnVSCode_def spawnGhostty_def spawnAppleTerminal_def str_probe_def num_probe_def
        terminate_existing_def Let_def
        split: option.splits prod.splits)

lemma probe_clears:
  "probe_made h b w \<Longrightarrow> fst (probe h b w) = None \<Longrightarrow>
     files (snd (probe h b w)) (registry_file b) = Some [] \<and>
     last (trace (snd (probe h b w))) = Write (registry_file b) []"
  by (cases b)
     (auto simp add: str_probe_def num_probe_def str_entry_def num_entry_def
        getITerm2SessionId_def getCanvasPaneId_def getKittyWindowId_def getWezTermPaneId_def
        getAlacrittyPid_def getVSCodePid_def getGhosttyPid_def getAppleTerminalWindowId_def get_pid_def
        isKittyRemoteControlAvailable_def spawnSync_def process_kill_def
        Let_def trace_bun_write files_bun_write files_emit
        split: option.splits prod.splits proc_outcome.splits if_splits)

lemma probe_not_made:
  "\<not> probe_made h b w \<Longrightarrow> files (snd (probe h b w)) = files w"
  by (cases b)
     (auto simp add: str_probe_def num_probe_def str_entry_def num_entry_def
        getITerm2SessionId_def getCanvasPaneId_def getKittyWindowId_def getWezTermPaneId_def
        getAlacrittyPid_def getVSCodePid_def getGhosttyPid_def getAppleTerminalWindowId_def get_pid_def
        isKittyRemoteControlAvailable_def spawnSync_def process_kill_def
        Let_def trace_bun_write files_bun_write files_emit
        split: option.splits prod.splits proc_outcome.splits if_splits)

section \<open>The orchestrator\<close>

lemma try_step:
  "try_in_order h e c (b # bs) w =
     (case (if present e b then spawnBackend h b c w else (False, w)) of
        (r, w1) \<Rightarrow> if r then (via (backend_name b), w1) else try_in_order h e c bs w1)"
  by (simp split: prod.splits)

text \<open>
  C1, as amended. \<^verbatim>\<open>spawnCanvas\<close> does not pick one backend from the classification
  (it never reads \<^verbatim>\<open>terminalType\<close>). It goes through the backends in the fixed order
  iTerm2, tmux, Kitty, WezTerm, Alacritty, VS Code, Ghostty, Apple Terminal, attempts
  each one whose presence flag is set, and returns the method of the first attempt that
  succeeds. A failed attempt falls through to the next backend whose flag is set, and the
  unsupported-terminal error is raised only when no attempted backend has succeeded.
\<close>

theorem spawnCanvas_tries_present_backends_in_order:
  "spawnCanvas h kind ident configJson options w =
     (let (command, w0) = buildCommand h kind ident configJson options w
      in try_in_order h (detectTerminal (process_env h)) command attempt_order w0)"
proof -
  obtain command w0 where b: "buildCommand h kind ident configJson options w = (command, w0)"
    by (cases "buildCommand h kind ident configJson options w")
  show ?thesis
    unfolding spawnCanvas_def attempt_order_def Let_def b prod.case
    by (simp only: try_step try_in_order.simps(1) present.simps spawnBackend.simps backend_name.simps)
qed

text \<open>
  C1 as stated fails. Kitty runs tmux, so \<^verbatim>\<open>TMUX\<close> and \<^verbatim>\<open>KITTY_PID\<close> are both set
  and the classification is tmux. The tmux attempt fails (\<^verbatim>\<open>split-window\<close> exits with
  status 1); the failure does not propagate: Kitty is attempted next and the call
  returns the method \<^verbatim>\<open>kitty\<close>.
\<close>

theorem spawnCanvas_second_backend_counterexample:
  "terminalType (detectTerminal (process_env failing_machine)) = Tmux \<and>
   fst (spawnCanvas failing_machine ''calendar'' ''demo-1'' None None (disk [])) = via ''kitty'' \<and>
   trace (snd (spawnCanvas failing_machine ''calendar'' ''demo-1'' None None (disk []))) =
     [Spawn ''tmux'' (tmux_split_args demo_command),
      SpawnSync ''kitty'' [''@'', ''ls''] (Some 2000),
      SpawnSync ''kitty'' [''@'', ''ls''] (Some 2000),
      SpawnDetached ''kitty'' (kitty_window_args demo_command)]"
  by code_simp

text \<open>
  C5. With no socket path given (no options at all, or options without one), the
  command is the run script with \<^verbatim>\<open>show <kind> --id <id>\<close>, then, exactly when a
  non-empty config is given, \<^verbatim>\<open>--config "$(cat /tmp/canvas-config-<id>.json)"\<close>, then
  always \<^verbatim>\<open>--socket /tmp/canvas-<id>.sock\<close>, then \<^verbatim>\<open>--scenario <name>\<close> exactly when a
  non-empty scenario is given. The config is not inlined: exactly when it is given, its
  text is written unchanged to \<^verbatim>\<open>/tmp/canvas-config-<id>.json\<close>, the file the command
  reads back; otherwise nothing is written.
\<close>

theorem buildCommand_default_socket:
  "buildCommand h kind ident configJson (Some \<lparr> socketPath = None, scenario = sc \<rparr>) w =
     (replace_first ''/src'' [] (import_meta_dir h) @ ''/run-canvas.sh show '' @ kind @ '' --id '' @ ident @
        (case configJson of
           None \<Rightarrow> []
         | Some cfg \<Rightarrow>
             if cfg \<noteq> [] then '' --config '' @ dq @ ''$(cat /tmp/canvas-config-'' @ ident @ ''.json)'' @ dq
             else []) @
        '' --socket /tmp/canvas-'' @ ident @ ''.sock'' @
        (case sc of None \<Rightarrow> [] | Some name \<Rightarrow> if name \<noteq> [] then '' --scenario '' @ name else []),
      case configJson of
        None \<Rightarrow> w
      | Some cfg \<Rightarrow> if cfg \<noteq> [] then bun_write (''/tmp/canvas-config-'' @ ident @ ''.json'') cfg w else w) \<and>
   buildCommand h kind ident configJson None w =
     (replace_first ''/src'' [] (import_meta_dir h) @ ''/run-canvas.sh show '' @ kind @ '' --id '' @ ident @
        (case configJson of
           None \<Rightarrow> []
         | Some cfg \<Rightarrow>
             if cfg \<noteq> [] then '' --config '' @ dq @ ''$(cat /tmp/canvas-config-'' @ ident @ ''.json)'' @ dq
             else []) @
        '' --socket /tmp/canvas-'' @ ident @ ''.sock'',
      case configJson of
        None \<Rightarrow> w
      | Some cfg \<Rightarrow> if cfg \<noteq> [] then bun_write (''/tmp/canvas-config-'' @ ident @ ''.json'') cfg w else w)"
  by (simp add: buildCommand_def Let_def split: option.splits)

text \<open>The example of the specification: id demo-1, kind calendar, config \<^verbatim>\<open>{"x":1}\<close>.\<close>

lemma buildCommand_example:
  "buildCommand bare_machine ''calendar'' ''demo-1'' (Some (''{'' @ dq @ ''x'' @ dq @ '':1}'')) None (disk []) =
     (''/opt/canvas/run-canvas.sh show calendar --id demo-1 --config '' @ dq @
        ''$(cat /tmp/canvas-config-demo-1.json)'' @ dq @ '' --socket /tmp/canvas-demo-1.sock'',
      bun_write ''/tmp/canvas-config-demo-1.json'' (''{'' @ dq @ ''x'' @ dq @ '':1}'') (disk []))"
  by (simp add: buildCommand_def bare_machine_def machine_def Let_def dq_def)

lemma no_terminal_flags:
  assumes "terminalType (detectTerminal penv) = NoTerminal"
  shows "\<not> inITerm2 (detectTerminal penv)" "\<not> inTmux (detectTerminal penv)"
    "\<not> inKitty (detectTerminal penv)" "\<not> inWezTerm (detectTerminal penv)"
    "\<not> inAlacritty (detectTerminal penv)" "\<not> inVSCode (detectTerminal penv)"
    "\<not> inGhostty (detectTerminal penv)" "\<not> inAppleTerminal (detectTerminal penv)"
  using assms unfolding detect_type[of penv] Let_def
  by (auto split: if_splits)

lemma message_names:
  "sublist ''iTerm2'' unsupported_message" "sublist ''tmux'' unsupported_message"
  "sublist ''Kitty'' unsupported_message" "sublist ''WezTerm'' unsupported_message"
  "sublist ''Alacritty'' unsupported_message" "sublist ''VS Code'' unsupported_message"
  "sublist ''Ghostty'' unsupported_message" "sublist ''Apple Terminal'' unsupported_message"
  unfolding unsupported_message_def
  by code_simp+

text \<open>
  C7. When the classification is none, no backend is attempted and \<^verbatim>\<open>spawnCanvas\<close>
  fails with the error whose message names the eight supported terminals: iTerm2, tmux,
  Kitty, WezTerm, Alacritty, VS Code, Ghostty and Apple Terminal.
\<close>

theorem unsupported_terminal_error:
  assumes "terminalType (detectTerminal (process_env h)) = NoTerminal"
  shows "spawnCanvas h kind ident configJson options w =
           (Inl (Error unsupported_message), snd (buildCommand h kind ident configJson options w)) \<and>
         sublist ''iTerm2'' unsupported_message \<and> sublist ''tmux'' unsupported_message \<and>
         sublist ''Kitty'' unsupported_message \<and> sublist ''WezTerm'' unsupported_message \<and>
         sublist ''Alacritty'' unsupported_message \<and> sublist ''VS Code'' unsupported_message \<and>
         sublist ''Ghostty'' unsupported_message \<and> sublist ''Apple Terminal'' unsupported_message"
  using no_terminal_flags[OF assms] message_names
  by (simp add: spawnCanvas_def Let_def split: prod.splits)

text \<open>C7 on a machine with none of the variables set.\<close>

theorem unsupported_terminal_error_witness:
  "terminalType (detectTerminal (process_env bare_machine)) = NoTerminal \<and>
   spawnCanvas bare_machine ''calendar'' ''demo-1'' None None (disk []) =
     (Inl (Error ''Canvas requires a supported terminal: iTerm2, tmux, Kitty, WezTerm, Alacritty, VS Code, Ghostty, or Apple Terminal.''),
      disk [])"
proof -
  have none: "terminalType (detectTerminal (process_env bare_machine)) = NoTerminal"
    by code_simp
  have same: "snd (buildCommand bare_machine ''calendar'' ''demo-1'' None None (disk [])) = disk []"
    by (simp add: buildCommand_def Let_def)
  from unsupported_terminal_error[OF none, of "''calendar''" "''demo-1''" None None "disk []"] none same
  show ?thesis
    by (simp add: unsupported_message_def)
qed

section \<open>Probe, reuse, creation\<close>

lemma iterm2_script_protocol:
  "\<exists>pre post. iterm2_reuse_script s c =
      pre @ ''write text (ASCII character 3)'' @ [CHR 0x0A] @
      ''                  delay 0.15'' @ [CHR 0x0A] @
      ''                  write text '' @ dq @ ''clear && '' @ escape_dq c @ dq @ post"
  unfolding iterm2_reuse_script_def
  apply (rule exI[of _ "js_lines
     ['''',
      ''      tell application '' @ dq @ ''iTerm2'' @ dq,
      ''        repeat with w in windows'',
      ''          repeat with t in tabs of w'',
      ''            repeat with s in sessions of t'',
      ''              if unique ID of s is '' @ dq @ s @ dq @ '' then'',
      ''                tell s'',
      ''                  '']"])
  apply (rule exI[of _ "CHR 0x0A # js_lines
     [''                end tell'',
      ''                return '' @ dq @ ''success'' @ dq,
      ''              end if'',
      ''            end repeat'',
      ''          end repeat'',
      ''        end repeat'',
      ''        return '' @ dq @ ''not_found'' @ dq,
      ''      end tell'',
      ''    '']"])
  apply simp
  done

lemma reuse_tmux_trace:
  "trace (snd (reuseExistingPane h p c w)) = trace w @
      (if exec h (trace w) ''tmux'' [''send-keys'', ''-t'', p, ''C-c''] = SpawnFailed
       then [Spawn ''tmux'' [''send-keys'', ''-t'', p, ''C-c''],
             SetTimeout 150 (SpawnLater ''tmux'' [''send-keys'', ''-t'', p, ''clear && '' @ c, ''Enter''])]
       else [Spawn ''tmux'' [''send-keys'', ''-t'', p, ''C-c''], Sleep 150,
             Spawn ''tmux'' [''send-keys'', ''-t'', p, ''clear && '' @ c, ''Enter'']])"
  by (simp add: reuseExistingPane_def spawn_def emit_def Let_def split: proc_outcome.splits)

lemma reuse_wezterm_trace:
  "trace (snd (reuseWezTermPane h p c w)) = trace w @
      (if exec h (trace w) ''wezterm'' [''cli'', ''send-text'', ''--pane-id'', p, ''--no-paste'', [CHR 0x03]]
          = SpawnFailed
       then [Spawn ''wezterm'' [''cli'', ''send-text'', ''--pane-id'', p, ''--no-paste'', [CHR 0x03]],
             SetTimeout 150
               (SpawnLater ''wezterm'' [''cli'', ''send-text'', ''--pane-id'', p, ''--no-paste'',
                                        ''clear && '' @ c @ [CHR 0x0A]])]
       else [Spawn ''wezterm'' [''cli'', ''send-text'', ''--pane-id'', p, ''--no-paste'', [CHR 0x03]],
             Sleep 150,
             Spawn ''wezterm'' [''cli'', ''send-text'', ''--pane-id'', p, ''--no-paste'',
                                ''clear && '' @ c @ [CHR 0x0A]]])"
  by (simp add: reuseWezTermPane_def spawn_def emit_def Let_def split: proc_outcome.splits)

lemma reuse_kitty_trace:
  "trace (snd (reuseKittyWindow h p c w)) = trace w @
      (if exec h (trace w) ''kitty'' [''@'', ''send-text'', ''--match'', ''id:'' @ p, [CHR 0x03]] = SpawnFailed
       then [Spawn ''kitty'' [''@'', ''send-text'', ''--match'', ''id:'' @ p, [CHR 0x03]],
             SetTimeout 150
               (SpawnLater ''kitty'' [''@'', ''send-text'', ''--match'', ''id:'' @ p,
                                      ''clear && '' @ c @ [CHR 0x0A]])]
       else [Spawn ''kitty'' [''@'', ''send-text'', ''--match'', ''id:'' @ p, [CHR 0x03]],
             Sleep 150,
             Spawn ''kitty'' [''@'', ''send-text'', ''--match'', ''id:'' @ p, ''clear && '' @ c @ [CHR 0x0A]]])"
  by (simp add: reuseKittyWindow_def spawn_def emit_def Let_def split: proc_outcome.splits)

lemma reuse_iterm2_trace:
  "trace (snd (reuseITerm2Session h s c w)) =
     trace w @ [Spawn ''osascript'' [''-e'', iterm2_reuse_script s c]]"
  by (simp add: reuseITerm2Session_def spawn_def emit_def Let_def)

lemma reuse_tmux_result:
  "fst (reuseExistingPane h p c w) =
     (exec h (trace w) ''tmux'' [''send-keys'', ''-t'', p, ''C-c''] \<noteq> SpawnFailed \<and>
      (\<exists>out. exec h (trace w @ [Spawn ''tmux'' [''send-keys'', ''-t'', p, ''C-c''], Sleep 150])
                   ''tmux'' [''send-keys'', ''-t'', p, ''clear && '' @ c, ''Enter''] = Closed (Some 0) out))"
  by (simp add: reuseExistingPane_def spawn_def emit_def Let_def status_ok_def split: proc_outcome.splits)

lemma reuse_wezterm_result:
  "fst (reuseWezTermPane h p c w) =
     (exec h (trace w) ''wezterm'' [''cli'', ''send-text'', ''--pane-id'', p, ''--no-paste'', [CHR 0x03]]
        \<noteq> SpawnFailed \<and>
      (\<exists>out. exec h (trace w @ [Spawn ''wezterm'' [''cli'', ''send-text'', ''--pane-id'', p,
                                                       ''--no-paste'', [CHR 0x03]], Sleep 150])
                   ''wezterm'' [''cli'', ''send-text'', ''--pane-id'', p, ''--no-paste'',
                                ''clear && '' @ c @ [CHR 0x0A]] = Closed (Some 0) out))"
  by (simp add: reuseWezTermPane_def spawn_def emit_def Let_def status_ok_def split: proc_outcome.splits)

lemma reuse_kitty_result:
  "fst (reuseKittyWindow h p c w) =
     (exec h (trace w) ''kitty'' [''@'', ''send-text'', ''--match'', ''id:'' @ p, [CHR 0x03]] \<noteq> SpawnFailed \<and>
      (\<exists>out. exec h (trace w @ [Spawn ''kitty'' [''@'', ''send-text'', ''--match'', ''id:'' @ p,
                                                     [CHR 0x03]], Sleep 150])
                   ''kitty'' [''@'', ''send-text'', ''--match'', ''id:'' @ p, ''clear && '' @ c @ [CHR 0x0A]]
         = Closed (Some 0) out))"
  by (simp add: reuseKittyWindow_def spawn_def emit_def Let_def status_ok_def split: proc_outcome.splits)

lemma reuse_iterm2_result:
  "fst (reuseITerm2Session h s c w) =
     (\<exists>out. exec h (trace w) ''osascript'' [''-e'', iterm2_reuse_script s c] = Closed (Some 0) out \<and>
            trim out = ''success'')"
  by (simp add: reuseITerm2Session_def spawn_def Let_def osascript_says_def split: proc_outcome.splits)

text \<open>
  C3, as amended. When the probe confirms the persisted entry and the identifier is not
  empty or zero: a backend with a reuse transport (tmux, iTerm2, Apple Terminal,
  WezTerm, and Kitty with remote control) runs it, and if it succeeds the call returns
  without invoking the creation primitive; if it fails the entry is cleared and the
  creation primitive is invoked once. Alacritty, VS Code and Ghostty have no reuse
  transport: the live process is sent \<^verbatim>\<open>SIGTERM\<close>, the entry is cleared and the
  creation primitive is invoked once, always.
\<close>

theorem live_entry_reused_or_recreated:
  assumes "probe h b w = (Some x, w1)" and "handle_truthy x"
  shows "spawnBackend h b c w =
           (if has_reuse_transport b then
              (let (reused, w2) = reuse h b x c w1
               in if reused then (True, w2)
                  else create h b c (bun_write (registry_file b) [] w2))
            else create h b c (terminate_existing (registry_file b) h (handle_pid x) w1)) \<and>
         creations b c (snd (spawnBackend h b c w)) =
           creations b c w + (if has_reuse_transport b \<and> fst (reuse h b x c w1) then 0 else 1)"
proof -
  have w1: "creations b c w1 = creations b c w"
    using creations_probe[of b c h b w] assms(1) by simp
  have eq: "spawnBackend h b c w =
           (if has_reuse_transport b then
              (let (reused, w2) = reuse h b x c w1
               in if reused then (True, w2)
                  else create h b c (bun_write (registry_file b) [] w2))
            else create h b c (terminate_existing (registry_file b) h (handle_pid x) w1))"
    by (simp add: spawnBackend_decomp assms)
  obtain r w2 where r: "reuse h b x c w1 = (r, w2)"
    by (cases "reuse h b x c w1")
  have w2: "creations b c w2 = creations b c w"
    using creations_reuse[of b c h x c w1] r w1 by simp
  have "creations b c (snd (spawnBackend h b c w)) =
           creations b c w + (if has_reuse_transport b \<and> fst (reuse h b x c w1) then 0 else 1)"
    unfolding eq
    by (simp add: r w1 w2 creations_create creations_bun_write creations_terminate)
  with eq show ?thesis by simp
qed

text \<open>
  C3 on a machine where the tmux pane \<^verbatim>\<open>%7\<close> is alive and \<^verbatim>\<open>send-keys\<close> succeeds (no
  creation), and where the VS Code process 4242 is alive (one creation).
\<close>

theorem live_entry_reused_or_recreated_witness:
  "probe (tmux_machine 0) TmuxBackend (disk [(CANVAS_PANE_FILE, ''%7'')]) =
     (Some (StrHandle ''%7''), snd (probe (tmux_machine 0) TmuxBackend (disk [(CANVAS_PANE_FILE, ''%7'')]))) \<and>
   handle_truthy (StrHandle ''%7'') \<and>
   fst (spawnBackend (tmux_machine 0) TmuxBackend demo_command (disk [(CANVAS_PANE_FILE, ''%7'')])) \<and>
   creations TmuxBackend demo_command
     (snd (spawnBackend (tmux_machine 0) TmuxBackend demo_command (disk [(CANVAS_PANE_FILE, ''%7'')]))) = 0 \<and>
   probe (tmux_machine 0) VSCodeBackend (disk [(VSCODE_PID_FILE, ''4242'')]) =
     (Some (NumHandle (Exact 4242)), snd (probe (tmux_machine 0) VSCodeBackend (disk [(VSCODE_PID_FILE, ''4242'')]))) \<and>
   handle_truthy (NumHandle (Exact 4242)) \<and>
   creations VSCodeBackend demo_command
     (snd (spawnBackend (tmux_machine 0) VSCodeBackend demo_command (disk [(VSCODE_PID_FILE, ''4242'')]))) = 1"
proof -
  let ?h = "tmux_machine 0"
  let ?w = "disk [(CANVAS_PANE_FILE, ''%7'')]"
  let ?v = "disk [(VSCODE_PID_FILE, ''4242'')]"
  have "fst (probe ?h TmuxBackend ?w) = Some (StrHandle ''%7'')"
    by code_simp
  then have p: "probe ?h TmuxBackend ?w = (Some (StrHandle ''%7''), snd (probe ?h TmuxBackend ?w))"
    by (simp only: prod_eq_iff fst_conv snd_conv simp_thms)
  have "fst (probe ?h VSCodeBackend ?v) = Some (NumHandle (Exact 4242))"
    by code_simp
  then have q: "probe ?h VSCodeBackend ?v = (Some (NumHandle (Exact 4242)), snd (probe ?h VSCodeBackend ?v))"
    by (simp only: prod_eq_iff fst_conv snd_conv simp_thms)
  have t: "handle_truthy (StrHandle ''%7'')" "handle_truthy (NumHandle (Exact 4242))"
    by (simp_all add: number_truthy_def)
  have r: "fst (reuse ?h TmuxBackend (StrHandle ''%7'') demo_command (snd (probe ?h TmuxBackend ?w)))"
    by code_simp
  have z: "creations TmuxBackend demo_command ?w = 0" "creations VSCodeBackend demo_command ?v = 0"
    by (simp_all add: creations_def disk_def)
  have ok: "fst (spawnBackend ?h TmuxBackend demo_command ?w)"
    by code_simp
  have c1: "creations TmuxBackend demo_command (snd (spawnBackend ?h TmuxBackend demo_command ?w)) = 0"
    using live_entry_reused_or_recreated[OF p t(1), of demo_command, THEN conjunct2] r z(1)
    by (simp only: has_reuse_transport.simps simp_thms if_True add_0_right)
  have c2: "creations VSCodeBackend demo_command (snd (spawnBackend ?h VSCodeBackend demo_command ?v)) = 1"
    using live_entry_reused_or_recreated[OF q t(2), of demo_command, THEN conjunct2] z(2)
    by (simp only: has_reuse_transport.simps simp_thms if_False add_0)
  from p t ok c1 q c2 show ?thesis
    by (intro conjI)
qed

text \<open>
  C3 as stated fails for the backends without a reuse transport: the probe confirms the
  Alacritty process 4242 alive, and the call terminates it, clears the entry and opens a
  new window.
\<close>

theorem live_alacritty_is_recreated_counterexample:
  "fst (probe (tmux_machine 0) AlacrittyBackend (disk [(ALACRITTY_PID_FILE, ''4242'')]))
     = Some (NumHandle (Exact 4242)) \<and>
   trace (snd (spawnBackend (tmux_machine 0) AlacrittyBackend demo_command
                 (disk [(ALACRITTY_PID_FILE, ''4242'')]))) =
     [Kill (Exact 4242) Sig0, Kill (Exact 4242) SIGTERM, Sleep 200, Write ALACRITTY_PID_FILE [],
      SpawnDetached ''alacritty'' [''--title'', ''Canvas'', ''-e'', ''/bin/sh'', ''-c'', demo_command],
      Write ALACRITTY_PID_FILE ''5000''] \<and>
   creations AlacrittyBackend demo_command
     (snd (spawnBackend (tmux_machine 0) AlacrittyBackend demo_command
             (disk [(ALACRITTY_PID_FILE, ''4242'')]))) = 1"
  by code_simp

text \<open>
  C4, as amended. When the probe does not confirm an entry, the call is the probe
  followed by the creation primitive, invoked exactly once and with no reuse in between:
  a handle is reused only after the probe has confirmed it in the same call. When a
  probe was made on the entry (the file exists and holds an identifier that can be
  probed: any text for tmux, a non-empty one for iTerm2, WezTerm and Kitty with remote
  control, a number for Apple Terminal, Alacritty, VS Code and Ghostty) and failed, the
  entry has been cleared before the creation: the file holds the empty string and the
  write that cleared it is the last effect of the probe. When no probe could be made,
  the files are left as they were.
\<close>

theorem failed_probe_clears_then_creates:
  assumes "fst (probe h b w) = None"
  shows "spawnBackend h b c w = create h b c (snd (probe h b w)) \<and>
         creations b c (snd (spawnBackend h b c w)) = creations b c w + 1 \<and>
         (if probe_made h b w
          then files (snd (probe h b w)) (registry_file b) = Some [] \<and>
               last (trace (snd (probe h b w))) = Write (registry_file b) []
          else files (snd (probe h b w)) = files w)"
proof -
  obtain w1 where p: "probe h b w = (None, w1)"
    using assms by (cases "probe h b w") auto
  have eq: "spawnBackend h b c w = create h b c (snd (probe h b w))"
    by (simp add: spawnBackend_decomp p)
  have "creations b c (snd (create h b c (snd (probe h b w)))) = creations b c w + 1"
    by (simp only: creations_create creations_probe)
  with eq probe_clears[OF _ assms] probe_not_made show ?thesis
    by simp
qed

text \<open>C4 on a machine where the persisted tmux pane \<^verbatim>\<open>%7\<close> is gone.\<close>

theorem failed_probe_clears_then_creates_witness:
  "fst (probe failing_machine TmuxBackend (disk [(CANVAS_PANE_FILE, ''%7'')])) = None \<and>
   probe_made failing_machine TmuxBackend (disk [(CANVAS_PANE_FILE, ''%7'')]) \<and>
   files (snd (probe failing_machine TmuxBackend (disk [(CANVAS_PANE_FILE, ''%7'')])))
     (registry_file TmuxBackend) = Some [] \<and>
   last (trace (snd (probe failing_machine TmuxBackend (disk [(CANVAS_PANE_FILE, ''%7'')])))) =
     Write (registry_file TmuxBackend) [] \<and>
   creations TmuxBackend demo_command
     (snd (spawnBackend failing_machine TmuxBackend demo_command (disk [(CANVAS_PANE_FILE, ''%7'')]))) = 1"
proof -
  let ?w = "disk [(CANVAS_PANE_FILE, ''%7'')]"
  have p: "fst (probe failing_machine TmuxBackend ?w) = None"
    by code_simp
  have m: "probe_made failing_machine TmuxBackend ?w"
    by code_simp
  have z: "creations TmuxBackend demo_command ?w = 0"
    by (simp add: creations_def disk_def)
  note T = failed_probe_clears_then_creates[OF p, of demo_command, THEN conjunct2]
  have c: "creations TmuxBackend demo_command (snd (spawnBackend failing_machine TmuxBackend demo_command ?w)) = 1"
    using T[THEN conjunct1] z by (simp only: add_0)
  have f: "files (snd (probe failing_machine TmuxBackend ?w)) (registry_file TmuxBackend) = Some [] \<and>
           last (trace (snd (probe failing_machine TmuxBackend ?w))) = Write (registry_file TmuxBackend) []"
    using T[THEN conjunct2] m by (simp only: if_True)
  from p m f c show ?thesis
    by (intro conjI) (simp_all only: simp_thms)
qed

text \<open>
  An Alacritty entry that starts with a no-break space (U+00A0) is read as the number
  after it: the probe is made, and when it fails the entry is cleared.
\<close>

lemma no_break_space_entry_is_probed:
  "probe_made failing_machine AlacrittyBackend
     (disk [(ALACRITTY_PID_FILE, [CHR 0xC2, CHR 0xA0] @ ''4242'')]) \<and>
   trace (snd (probe failing_machine AlacrittyBackend
                 (disk [(ALACRITTY_PID_FILE, [CHR 0xC2, CHR 0xA0] @ ''4242'')]))) =
     [Kill (Exact 4242) Sig0, Write ALACRITTY_PID_FILE []]"
  by code_simp

text \<open>
  C4 as stated fails for a malformed identifier of a numeric backend: the Alacritty
  entry \<^verbatim>\<open>abc\<close> is not a number, no probe is made and the entry is never cleared; the
  file holds \<^verbatim>\<open>abc\<close> until the creation overwrites it with the new process id.
\<close>

theorem malformed_pid_not_cleared_counterexample:
  "files (disk [(ALACRITTY_PID_FILE, ''abc'')]) (registry_file AlacrittyBackend) = Some ''abc'' \<and>
   fst (probe failing_machine AlacrittyBackend (disk [(ALACRITTY_PID_FILE, ''abc'')])) = None \<and>
   files (snd (probe failing_machine AlacrittyBackend (disk [(ALACRITTY_PID_FILE, ''abc'')])))
     (registry_file AlacrittyBackend) = Some ''abc'' \<and>
   trace (snd (spawnBackend failing_machine AlacrittyBackend demo_command
                 (disk [(ALACRITTY_PID_FILE, ''abc'')]))) =
     [SpawnDetached ''alacritty'' [''--title'', ''Canvas'', ''-e'', ''/bin/sh'', ''-c'', demo_command],
      Write ALACRITTY_PID_FILE ''5000'']"
  by code_simp

text \<open>
  C6, as amended. For tmux, iTerm2, WezTerm and Kitty, the reuse of a live session is:
  send the interrupt (\<^verbatim>\<open>C-c\<close>, the byte 3), wait 150 ms, then send
  \<^verbatim>\<open>clear && <command>\<close>. iTerm2 does it in one script that writes the interrupt
  character, delays 0.15 s and writes the text. tmux, WezTerm and Kitty do it with two
  child processes and a timer in between, and the exit status of the interrupt process
  is not looked at: the timer is armed when that process closes, whatever its status,
  and also when it could not be started (then the call has already reported the failure
  and the text is sent later, on its own). The reuse is reported as failed exactly when
  the interrupt process could not be started, or the process that sends the text could
  not be started or exits with a status other than 0 (iTerm2: the script does not exit
  with status 0 printing \<^verbatim>\<open>success\<close>); then the entry is cleared and the flow proceeds
  to creation. Otherwise the call returns without clearing and without creating.
\<close>

theorem reuse_interrupt_settle_inject:
  assumes "probe h b w = (Some (StrHandle p), w1)" and "p \<noteq> []"
    and "b \<in> {TmuxBackend, ITerm2Backend, WezTermBackend, KittyBackend}"
  shows
    "trace (snd (reuse h b (StrHandle p) c w1)) = trace w1 @
       (case b of
          TmuxBackend \<Rightarrow>
            (if exec h (trace w1) ''tmux'' [''send-keys'', ''-t'', p, ''C-c''] = SpawnFailed
             then [Spawn ''tmux'' [''send-keys'', ''-t'', p, ''C-c''],
                   SetTimeout 150
                     (SpawnLater ''tmux'' [''send-keys'', ''-t'', p, ''clear && '' @ c, ''Enter''])]
             else [Spawn ''tmux'' [''send-keys'', ''-t'', p, ''C-c''], Sleep 150,
                   Spawn ''tmux'' [''send-keys'', ''-t'', p, ''clear && '' @ c, ''Enter'']])
        | WezTermBackend \<Rightarrow>
            (if exec h (trace w1) ''wezterm''
                  [''cli'', ''send-text'', ''--pane-id'', p, ''--no-paste'', [CHR 0x03]] = SpawnFailed
             then [Spawn ''wezterm'' [''cli'', ''send-text'', ''--pane-id'', p, ''--no-paste'', [CHR 0x03]],
                   SetTimeout 150
                     (SpawnLater ''wezterm'' [''cli'', ''send-text'', ''--pane-id'', p, ''--no-paste'',
                                              ''clear && '' @ c @ [CHR 0x0A]])]
             else [Spawn ''wezterm'' [''cli'', ''send-text'', ''--pane-id'', p, ''--no-paste'', [CHR 0x03]],
                   Sleep 150,
                   Spawn ''wezterm'' [''cli'', ''send-text'', ''--pane-id'', p, ''--no-paste'',
                                      ''clear && '' @ c @ [CHR 0x0A]]])
        | KittyBackend \<Rightarrow>
            (if exec h (trace w1) ''kitty'' [''@'', ''send-text'', ''--match'', ''id:'' @ p, [CHR 0x03]]
                  = SpawnFailed
             then [Spawn ''kitty'' [''@'', ''send-text'', ''--match'', ''id:'' @ p, [CHR 0x03]],
                   SetTimeout 150
                     (SpawnLater ''kitty'' [''@'', ''send-text'', ''--match'', ''id:'' @ p,
                                            ''clear && '' @ c @ [CHR 0x0A]])]
             else [Spawn ''kitty'' [''@'', ''send-text'', ''--match'', ''id:'' @ p, [CHR 0x03]],
                   Sleep 150,
                   Spawn ''kitty'' [''@'', ''send-text'', ''--match'', ''id:'' @ p,
                                    ''clear && '' @ c @ [CHR 0x0A]]])
        | ITerm2Backend \<Rightarrow> [Spawn ''osascript'' [''-e'', iterm2_reuse_script p c]]
        | _ \<Rightarrow> []) \<and>
     (\<exists>pre post. iterm2_reuse_script p c =
        pre @ ''write text (ASCII character 3)'' @ [CHR 0x0A] @
        ''                  delay 0.15'' @ [CHR 0x0A] @
        ''                  write text '' @ dq @ ''clear && '' @ escape_dq c @ dq @ post) \<and>
     fst (reuse h b (StrHandle p) c w1) =
       (case b of
          TmuxBackend \<Rightarrow>
            (exec h (trace w1) ''tmux'' [''send-keys'', ''-t'', p, ''C-c''] \<noteq> SpawnFailed \<and>
             (\<exists>out. exec h (trace w1 @ [Spawn ''tmux'' [''send-keys'', ''-t'', p, ''C-c''], Sleep 150])
                          ''tmux'' [''send-keys'', ''-t'', p, ''clear && '' @ c, ''Enter''] = Closed (Some 0) out))
        | WezTermBackend \<Rightarrow>
            (exec h (trace w1) ''wezterm''
                [''cli'', ''send-text'', ''--pane-id'', p, ''--no-paste'', [CHR 0x03]] \<noteq> SpawnFailed \<and>
             (\<exists>out. exec h (trace w1 @ [Spawn ''wezterm'' [''cli'', ''send-text'', ''--pane-id'', p,
                                                               ''--no-paste'', [CHR 0x03]], Sleep 150])
                          ''wezterm'' [''cli'', ''send-text'', ''--pane-id'', p, ''--no-paste'',
                                       ''clear && '' @ c @ [CHR 0x0A]] = Closed (Some 0) out))
        | KittyBackend \<Rightarrow>
            (exec h (trace w1) ''kitty'' [''@'', ''send-text'', ''--match'', ''id:'' @ p, [CHR 0x03]]
                \<noteq> SpawnFailed \<and>
             (\<exists>out. exec h (trace w1 @ [Spawn ''kitty'' [''@'', ''send-text'', ''--match'', ''id:'' @ p,
                                                             [CHR 0x03]], Sleep 150])
                          ''kitty'' [''@'', ''send-text'', ''--match'', ''id:'' @ p,
                                     ''clear && '' @ c @ [CHR 0x0A]] = Closed (Some 0) out))
        | ITerm2Backend \<Rightarrow>
            (\<exists>out. exec h (trace w1) ''osascript'' [''-e'', iterm2_reuse_script p c] = Closed (Some 0) out \<and>
                   trim out = ''success'')
        | _ \<Rightarrow> False) \<and>
     spawnBackend h b c w =
       (if fst (reuse h b (StrHandle p) c w1) then (True, snd (reuse h b (StrHandle p) c w1))
        else create h b c (bun_write (registry_file b) [] (snd (reuse h b (StrHandle p) c w1)))) \<and>
     files (bun_write (registry_file b) [] (snd (reuse h b (StrHandle p) c w1))) (registry_file b) = Some []"
proof -
  have shape: "trace (snd (reuse h b (StrHandle p) c w1)) = trace w1 @
       (case b of
          TmuxBackend \<Rightarrow>
            (if exec h (trace w1) ''tmux'' [''send-keys'', ''-t'', p, ''C-c''] = SpawnFailed
             then [Spawn ''tmux'' [''send-keys'', ''-t'', p, ''C-c''],
                   SetTimeout 150
                     (SpawnLater ''tmux'' [''send-keys'', ''-t'', p, ''clear && '' @ c, ''Enter''])]
             else [Spawn ''tmux'' [''send-keys'', ''-t'', p, ''C-c''], Sleep 150,
                   Spawn ''tmux'' [''send-keys'', ''-t'', p, ''clear && '' @ c, ''Enter'']])
        | WezTermBackend \<Rightarrow>
            (if exec h (trace w1) ''wezterm''
                  [''cli'', ''send-text'', ''--pane-id'', p, ''--no-paste'', [CHR 0x03]] = SpawnFailed
             then [Spawn ''wezterm'' [''cli'', ''send-text'', ''--pane-id'', p, ''--no-paste'', [CHR 0x03]],
                   SetTimeout 150
                     (SpawnLater ''wezterm'' [''cli'', ''send-text'', ''--pane-id'', p, ''--no-paste'',
                                              ''clear && '' @ c @ [CHR 0x0A]])]
             else [Spawn ''wezterm'' [''cli'', ''send-text'', ''--pane-id'', p, ''--no-paste'', [CHR 0x03]],
                   Sleep 150,
                   Spawn ''wezterm'' [''cli'', ''send-text'', ''--pane-id'', p, ''--no-paste'',
                                      ''clear && '' @ c @ [CHR 0x0A]]])
        | KittyBackend \<Rightarrow>
            (if exec h (trace w1) ''kitty'' [''@'', ''send-text'', ''--match'', ''id:'' @ p, [CHR 0x03]]
                  = SpawnFailed
             then [Spawn ''kitty'' [''@'', ''send-text'', ''--match'', ''id:'' @ p, [CHR 0x03]],
                   SetTimeout 150
                     (SpawnLater ''kitty'' [''@'', ''send-text'', ''--match'', ''id:'' @ p,
                                            ''clear && '' @ c @ [CHR 0x0A]])]
             else [Spawn ''kitty'' [''@'', ''send-text'', ''--match'', ''id:'' @ p, [CHR 0x03]],
                   Sleep 150,
                   Spawn ''kitty'' [''@'', ''send-text'', ''--match'', ''id:'' @ p,
                                    ''clear && '' @ c @ [CHR 0x0A]]])
        | ITerm2Backend \<Rightarrow> [Spawn ''osascript'' [''-e'', iterm2_reuse_script p c]]
        | _ \<Rightarrow> [])"
    using assms(3)
    by (auto simp only: reuse.simps backend.case reuse_tmux_trace reuse_wezterm_trace reuse_kitty_trace
          reuse_iterm2_trace)
  have result: "fst (reuse h b (StrHandle p) c w1) =
       (case b of
          TmuxBackend \<Rightarrow>
            (exec h (trace w1) ''tmux'' [''send-keys'', ''-t'', p, ''C-c''] \<noteq> SpawnFailed \<and>
             (\<exists>out. exec h (trace w1 @ [Spawn ''tmux'' [''send-keys'', ''-t'', p, ''C-c''], Sleep 150])
                          ''tmux'' [''send-keys'', ''-t'', p, ''clear && '' @ c, ''Enter''] = Closed (Some 0) out))
        | WezTermBackend \<Rightarrow>
            (exec h (trace w1) ''wezterm''
                [''cli'', ''send-text'', ''--pane-id'', p, ''--no-paste'', [CHR 0x03]] \<noteq> SpawnFailed \<and>
             (\<exists>out. exec h (trace w1 @ [Spawn ''wezterm'' [''cli'', ''send-text'', ''--pane-id'', p,
                                                               ''--no-paste'', [CHR 0x03]], Sleep 150])
                          ''wezterm'' [''cli'', ''send-text'', ''--pane-id'', p, ''--no-paste'',
                                       ''clear && '' @ c @ [CHR 0x0A]] = Closed (Some 0) out))
        | KittyBackend \<Rightarrow>
            (exec h (trace w1) ''kitty'' [''@'', ''send-text'', ''--match'', ''id:'' @ p, [CHR 0x03]]
                \<noteq> SpawnFailed \<and>
             (\<exists>out. exec h (trace w1 @ [Spawn ''kitty'' [''@'', ''send-text'', ''--match'', ''id:'' @ p,
                                                             [CHR 0x03]], Sleep 150])
                          ''kitty'' [''@'', ''send-text'', ''--match'', ''id:'' @ p,
                                     ''clear && '' @ c @ [CHR 0x0A]] = Closed (Some 0) out))
        | ITerm2Backend \<Rightarrow>
            (\<exists>out. exec h (trace w1) ''osascript'' [''-e'', iterm2_reuse_script p c] = Closed (Some 0) out \<and>
                   trim out = ''success'')
        | _ \<Rightarrow> False)"
    using assms(3)
    by (auto simp only: reuse.simps backend.case reuse_tmux_result reuse_wezterm_result reuse_kitty_result
          reuse_iterm2_result)
  have transport: "has_reuse_transport b"
    using assms(3) by auto
  have flow: "spawnBackend h b c w =
       (if fst (reuse h b (StrHandle p) c w1) then (True, snd (reuse h b (StrHandle p) c w1))
        else create h b c (bun_write (registry_file b) [] (snd (reuse h b (StrHandle p) c w1))))"
    by (simp add: spawnBackend_decomp assms(1,2) transport split: prod.splits)
  have cleared: "files (bun_write (registry_file b) [] (snd (reuse h b (StrHandle p) c w1))) (registry_file b)
      = Some []"
    by (simp add: files_bun_write)
  from shape iterm2_script_protocol result flow cleared show ?thesis
    by blast
qed

text \<open>
  C6 on a machine where the tmux pane is alive but \<^verbatim>\<open>send-keys\<close> exits with status 1:
  interrupt, 150 ms, \<^verbatim>\<open>clear && <command>\<close>, then the entry is cleared and a new pane
  is split.
\<close>

theorem reuse_interrupt_settle_inject_witness:
  "probe (tmux_machine 1) TmuxBackend (disk [(CANVAS_PANE_FILE, ''%7'')]) =
     (Some (StrHandle ''%7''), snd (probe (tmux_machine 1) TmuxBackend (disk [(CANVAS_PANE_FILE, ''%7'')]))) \<and>
   ''%7'' \<noteq> [] \<and>
   TmuxBackend \<in> {TmuxBackend, ITerm2Backend, WezTermBackend, KittyBackend} \<and>
   trace (snd (reuse (tmux_machine 1) TmuxBackend (StrHandle ''%7'') demo_command
                 (snd (probe (tmux_machine 1) TmuxBackend (disk [(CANVAS_PANE_FILE, ''%7'')]))))) =
     [SpawnSync ''tmux'' [''display-message'', ''-t'', ''%7'', ''-p'', ''#{pane_id}''] None,
      Spawn ''tmux'' [''send-keys'', ''-t'', ''%7'', ''C-c''], Sleep 150,
      Spawn ''tmux'' [''send-keys'', ''-t'', ''%7'', ''clear && '' @ demo_command, ''Enter'']] \<and>
   \<not> fst (reuse (tmux_machine 1) TmuxBackend (StrHandle ''%7'') demo_command
            (snd (probe (tmux_machine 1) TmuxBackend (disk [(CANVAS_PANE_FILE, ''%7'')])))) \<and>
   spawnBackend (tmux_machine 1) TmuxBackend demo_command (disk [(CANVAS_PANE_FILE, ''%7'')]) =
     create (tmux_machine 1) TmuxBackend demo_command
       (bun_write (registry_file TmuxBackend) []
          (snd (reuse (tmux_machine 1) TmuxBackend (StrHandle ''%7'') demo_command
                  (snd (probe (tmux_machine 1) TmuxBackend (disk [(CANVAS_PANE_FILE, ''%7'')]))))))"
proof -
  let ?h = "tmux_machine 1"
  let ?w = "disk [(CANVAS_PANE_FILE, ''%7'')]"
  let ?w1 = "snd (probe ?h TmuxBackend ?w)"
  have "fst (probe ?h TmuxBackend ?w) = Some (StrHandle ''%7'')"
    by code_simp
  then have p: "probe ?h TmuxBackend ?w = (Some (StrHandle ''%7''), ?w1)"
    by (simp only: prod_eq_iff fst_conv snd_conv simp_thms)
  have ne: "''%7'' \<noteq> []"
    by simp
  have b: "TmuxBackend \<in> {TmuxBackend, ITerm2Backend, WezTermBackend, KittyBackend}"
    by simp
  have tr: "trace ?w1 = [SpawnSync ''tmux'' [''display-message'', ''-t'', ''%7'', ''-p'', ''#{pane_id}''] None]"
    by code_simp
  have ex: "exec ?h (trace ?w1) ''tmux'' [''send-keys'', ''-t'', ''%7'', ''C-c''] \<noteq> SpawnFailed"
    by code_simp
  have r: "\<not> fst (reuse ?h TmuxBackend (StrHandle ''%7'') demo_command ?w1)"
    by code_simp
  note T = reuse_interrupt_settle_inject[OF p ne b, of demo_command]
  have shape: "trace (snd (reuse ?h TmuxBackend (StrHandle ''%7'') demo_command ?w1)) =
     [SpawnSync ''tmux'' [''display-message'', ''-t'', ''%7'', ''-p'', ''#{pane_id}''] None,
      Spawn ''tmux'' [''send-keys'', ''-t'', ''%7'', ''C-c''], Sleep 150,
      Spawn ''tmux'' [''send-keys'', ''-t'', ''%7'', ''clear && '' @ demo_command, ''Enter'']]"
    using T[THEN conjunct1] ex tr by (simp only: backend.case if_False append.simps)
  have flow: "spawnBackend ?h TmuxBackend demo_command ?w =
     create ?h TmuxBackend demo_command
       (bun_write (registry_file TmuxBackend) []
          (snd (reuse ?h TmuxBackend (StrHandle ''%7'') demo_command ?w1)))"
    using T[THEN conjunct2, THEN conjunct2, THEN conjunct2, THEN conjunct1] r by (simp only: if_False)
  from p ne b shape r flow show ?thesis
    by (intro conjI)
qed

text \<open>
  C6 as stated fails when the interrupt reports a status other than 0: the status is
  ignored, the text is sent, and when that succeeds the reuse succeeds; the entry is not
  cleared and nothing is created.
\<close>

theorem nonzero_interrupt_still_reuses_counterexample:
  "exec interrupt_refused_machine
     [SpawnSync ''tmux'' [''display-message'', ''-t'', ''%7'', ''-p'', ''#{pane_id}''] None]
     ''tmux'' [''send-keys'', ''-t'', ''%7'', ''C-c''] = Closed (Some 1) [] \<and>
   fst (probe interrupt_refused_machine TmuxBackend (disk [(CANVAS_PANE_FILE, ''%7'')])) =
     Some (StrHandle ''%7'') \<and>
   fst (spawnBackend interrupt_refused_machine TmuxBackend demo_command (disk [(CANVAS_PANE_FILE, ''%7'')])) \<and>
   trace (snd (spawnBackend interrupt_refused_machine TmuxBackend demo_command
                 (disk [(CANVAS_PANE_FILE, ''%7'')]))) =
     [SpawnSync ''tmux'' [''display-message'', ''-t'', ''%7'', ''-p'', ''#{pane_id}''] None,
      Spawn ''tmux'' [''send-keys'', ''-t'', ''%7'', ''C-c''], Sleep 150,
      Spawn ''tmux'' [''send-keys'', ''-t'', ''%7'', ''clear && '' @ demo_command, ''Enter'']] \<and>
   files (snd (spawnBackend interrupt_refused_machine TmuxBackend demo_command
                 (disk [(CANVAS_PANE_FILE, ''%7'')]))) CANVAS_PANE_FILE = Some ''%7''"
  by code_simp

section \<open>The query client\<close>

lemma handle_all_append:
  "handle_all h rq ex s (xs @ ys) = handle_all h rq ex (handle_all h rq ex s xs) ys"
  by (simp add: handle_all_def)

lemma handle_all_Cons:
  "handle_all h rq ex s (a # ys) = handle_all h rq ex (handle_event h rq ex s (snd a)) ys"
  and handle_all_Nil: "handle_all h rq ex s [] = s"
  by (simp_all add: handle_all_def)

lemma settle_pending: "promise s = None \<Longrightarrow> promise (settle r s) = Some r"
  by (simp add: settle_def)

lemma settle_fields:
  "resolved (settle r s) = resolved s" "timer_pending (settle r s) = timer_pending s"
  "actions (settle r s) = actions s"
  by (simp_all add: settle_def split: option.splits)

lemma attempts_actions:
  "connection_attempts (s\<lparr>actions := actions s @ [a]\<rparr>) =
     connection_attempts s + (case a of Connect p \<Rightarrow> 1 | _ \<Rightarrow> 0)"
  by (simp add: connection_attempts_def split: client_action.splits)

lemma attempts_event: "connection_attempts (handle_event h rq ex s e) = connection_attempts s"
  by (cases e)
     (simp_all add: on_open_def on_data_def on_close_def on_error_def clearTimeout_def settle_def
        connection_attempts_def Let_def split: option.splits)

lemma attempts_all: "connection_attempts (handle_all h rq ex s evs) = connection_attempts s"
  by (induction evs arbitrary: s) (simp_all add: handle_all_Nil handle_all_Cons attempts_event)

lemma attempts_timeout: "connection_attempts (on_timeout s) = connection_attempts s"
  by (simp add: on_timeout_def settle_def connection_attempts_def Let_def split: option.splits)

lemma resolved_event:
  "resolved s \<Longrightarrow> resolved (handle_event h rq ex s e) \<and> promise (handle_event h rq ex s e) = promise s"
  by (cases e) (simp_all add: on_open_def on_data_def on_close_def on_error_def Let_def)

lemma resolved_all:
  "resolved s \<Longrightarrow>
     resolved (handle_all h rq ex s evs) \<and> promise (handle_all h rq ex s evs) = promise s"
  by (induction evs arbitrary: s) (simp_all add: handle_all_Nil handle_all_Cons resolved_event)

lemma resolved_timeout: "resolved s \<Longrightarrow> resolved (on_timeout s) \<and> promise (on_timeout s) = promise s"
  by (simp add: on_timeout_def Let_def)

lemma opens_keep:
  "list_all (\<lambda>a. fst a < ms \<and> snd a = Open) pre \<Longrightarrow>
     resolved (handle_all h rq ex s pre) = resolved s \<and>
     promise (handle_all h rq ex s pre) = promise s \<and>
     timer_pending (handle_all h rq ex s pre) = timer_pending s"
  by (induction pre arbitrary: s) (simp_all add: handle_all_Nil handle_all_Cons on_open_def Let_def)

lemma early_prefix:
  "list_all (\<lambda>a. fst a < ms \<and> snd a = Open) pre \<Longrightarrow>
     takeWhile (\<lambda>a. fst a < ms) (pre @ rest) = pre @ takeWhile (\<lambda>a. fst a < ms) rest \<and>
     dropWhile (\<lambda>a. fst a < ms) (pre @ rest) = dropWhile (\<lambda>a. fst a < ms) rest"
  by (induction pre) simp_all

text \<open>
  What the call settles to when, after open events only, one event arrives before the
  timer is due: the promise is what that event's handler makes of the fresh state.
\<close>

lemma first_event_decides:
  assumes pre: "list_all (\<lambda>a. fst a < ms \<and> snd a = Open) pre" and t: "t < ms"
    and ms: "ms = (case timeoutMs of None \<Rightarrow> 2000 | Some n \<Rightarrow> n)"
    and ev: "\<And>s. \<not> resolved s \<Longrightarrow> promise s = None \<Longrightarrow>
               resolved (handle_event h rq ex s e) \<and> promise (handle_event h rq ex s e) = out"
  shows "promise (sendCanvasRequest h path rq ex timeoutMs (pre @ (t, e) # rest)) = out"
proof -
  define s0 where "s0 = \<lparr> resolved = False, timer_pending = True, promise = None,
                          actions = [SetTimer ms, Connect path] \<rparr>"
  define s1 where "s1 = handle_all h rq ex s0 pre"
  define s2 where "s2 = handle_event h rq ex s1 e"
  have "\<not> resolved s1" "promise s1 = None"
    using opens_keep[OF pre, of h rq ex s0] by (simp_all add: s1_def s0_def)
  then have s2: "resolved s2" "promise s2 = out"
    using ev[of s1] by (simp_all add: s2_def)
  define s3 where "s3 = handle_all h rq ex s2 (takeWhile (\<lambda>a. fst a < ms) rest)"
  have s3: "resolved s3" "promise s3 = out"
    using resolved_all[OF s2(1)] s2(2) by (simp_all add: s3_def)
  have "sendCanvasRequest h path rq ex timeoutMs (pre @ (t, e) # rest) =
          handle_all h rq ex (on_timeout s3) (dropWhile (\<lambda>a. fst a < ms) rest)"
    using early_prefix[OF pre, of "(t, e) # rest"] t
    by (simp add: sendCanvasRequest_def ms[symmetric] Let_def s0_def s1_def s2_def s3_def
          handle_all_append handle_all_Cons)
  then show ?thesis
    using resolved_all[of "on_timeout s3"] resolved_timeout[OF s3(1)] s3(2) by simp
qed

text \<open>
  When the first chunk of data is the first thing to arrive after the connection opened,
  arrives before the timer is due and is by itself a whole reply that parses to a value
  with a type: if the type is the expected one the promise resolves with the serialized
  \<^verbatim>\<open>data\<close> of the reply, otherwise with the serialized \<^verbatim>\<open>null\<close>.
\<close>

lemma whole_reply_resolves:
  assumes "list_all (\<lambda>a. fst a < ms \<and> snd a = Open) pre" and "t < ms"
    and "ms = (case timeoutMs of None \<Rightarrow> 2000 | Some n \<Rightarrow> n)"
    and "JSON_parse h (trim d) = Some response"
    and "js_get response ''type'' = Some ty"
    and "js_get response ''data'' = Some payload"
  shows "promise (sendCanvasRequest h path rq expected timeoutMs (pre @ (t, Data d) # rest)) =
           Some (Resolved (if ty = JStr expected then js_stringify h payload
                           else Some (JSON_stringify h JNull)))"
proof (rule first_event_decides[OF assms(1,2,3)])
  fix s :: request_state
  assume "\<not> resolved s" and "promise s = None"
  then show "resolved (handle_event h rq expected s (Data d)) \<and>
             promise (handle_event h rq expected s (Data d)) =
               Some (Resolved (if ty = JStr expected then js_stringify h payload
                               else Some (JSON_stringify h JNull)))"
    by (simp add: on_data_def assms(4,5,6) Let_def clearTimeout_def settle_def js_stringify_def)
qed

text \<open>
  The example of the specification: the reply \<^verbatim>\<open>{"type":"selection","data":["a"]}\<close>,
  arriving in one chunk, resolves a \<^verbatim>\<open>getSelection\<close> request to \<^verbatim>\<open>["a"]\<close> and a
  \<^verbatim>\<open>getContent\<close> request to \<^verbatim>\<open>null\<close>.
\<close>

lemma whole_reply_resolves_example:
  "list_all (\<lambda>a. fst a < (2000::nat) \<and> snd a = Open) [(3, Open)] \<and> (40::nat) < 2000 \<and>
   JSON_parse bare_machine (trim (selection_reply @ [CHR 0x0A])) =
     Some (JObj [(''type'', JStr ''selection''), (''data'', JArr [JStr ''a''])]) \<and>
   promise (sendCanvasRequest bare_machine ''/tmp/canvas-demo-1.sock'' ''getSelection'' ''selection'' None
              [(3, Open), (40, Data (selection_reply @ [CHR 0x0A]))]) =
     Some (Resolved (Some (''['' @ dq @ ''a'' @ dq @ '']''))) \<and>
   promise (sendCanvasRequest bare_machine ''/tmp/canvas-demo-1.sock'' ''getContent'' ''content'' None
              [(3, Open), (40, Data (selection_reply @ [CHR 0x0A]))]) =
     Some (Resolved (Some ''null''))"
proof -
  let ?resp = "JObj [(''type'', JStr ''selection''), (''data'', JArr [JStr ''a''])]"
  have pre: "list_all (\<lambda>a. fst a < (2000::nat) \<and> snd a = Open) [(3, Open)]"
    by simp
  have t: "(40::nat) < 2000"
    by simp
  have ms: "(2000::nat) = (case None of None \<Rightarrow> 2000 | Some n \<Rightarrow> n)"
    by simp
  have parse: "JSON_parse bare_machine (trim (selection_reply @ [CHR 0x0A])) = Some ?resp"
    by code_simp
  have ty: "js_get ?resp ''type'' = Some (JStr ''selection'')"
    by code_simp
  have payload: "js_get ?resp ''data'' = Some (JArr [JStr ''a''])"
    by code_simp
  have str: "js_stringify bare_machine (JArr [JStr ''a'']) = Some (''['' @ dq @ ''a'' @ dq @ '']'')"
    "JSON_stringify bare_machine JNull = ''null''"
    by code_simp+
  from whole_reply_resolves[OF pre t ms parse ty payload,
      of "''/tmp/canvas-demo-1.sock''" "''getSelection''" "''selection''" "[]"]
    whole_reply_resolves[OF pre t ms parse ty payload,
      of "''/tmp/canvas-demo-1.sock''" "''getContent''" "''content''" "[]"]
    pre t parse str
  show ?thesis
    by simp
qed

text \<open>
  C8. The handler of \<^verbatim>\<open>data\<close> takes the first chunk for the whole reply: it sets the
  flag and clears the timer, and only then parses the chunk. On the same reply line as
  above, with the expected type, arriving in two chunks, the first chunk does not parse,
  the handler throws, and the promise is left pending for ever: it is not resolved with
  the \<^verbatim>\<open>data\<close> of the reply, the second chunk is ignored, and the timer that would have
  rejected it is gone.
\<close>

theorem split_reply_never_settles:
  "take 20 (selection_reply @ [CHR 0x0A]) @ drop 20 (selection_reply @ [CHR 0x0A]) =
     selection_reply @ [CHR 0x0A] \<and>
   promise (sendCanvasRequest bare_machine ''/tmp/canvas-demo-1.sock'' ''getSelection'' ''selection'' None
              [(3, Open), (40, Data (take 20 (selection_reply @ [CHR 0x0A]))),
               (41, Data (drop 20 (selection_reply @ [CHR 0x0A])))]) = None \<and>
   resolved (sendCanvasRequest bare_machine ''/tmp/canvas-demo-1.sock'' ''getSelection'' ''selection'' None
              [(3, Open), (40, Data (take 20 (selection_reply @ [CHR 0x0A]))),
               (41, Data (drop 20 (selection_reply @ [CHR 0x0A])))]) \<and>
   actions (sendCanvasRequest bare_machine ''/tmp/canvas-demo-1.sock'' ''getSelection'' ''selection'' None
              [(3, Open), (40, Data (take 20 (selection_reply @ [CHR 0x0A]))),
               (41, Data (drop 20 (selection_reply @ [CHR 0x0A])))]) =
     [SetTimer 2000, Connect ''/tmp/canvas-demo-1.sock'',
      SocketWrite (''{'' @ dq @ ''type'' @ dq @ '':'' @ dq @ ''getSelection'' @ dq @ ''}'' @ [CHR 0x0A]),
      ClearTimer]"
  by code_simp



lemma error_first_rejects:
  assumes "list_all (\<lambda>a. fst a < ms \<and> snd a = Open) pre" and "t < ms"
    and "ms = (case timeoutMs of None \<Rightarrow> 2000 | Some n \<Rightarrow> n)"
  shows "promise (sendCanvasRequest h path rq expected timeoutMs (pre @ (t, ErrorEv err) # rest)) =
           Some (Rejected (SocketError err))"
proof (rule first_event_decides[OF assms(1,2,3)])
  fix s :: request_state
  assume "\<not> resolved s" and "promise s = None"
  then show "resolved (handle_event h rq expected s (ErrorEv err)) \<and>
             promise (handle_event h rq expected s (ErrorEv err)) = Some (Rejected (SocketError err))"
    by (simp add: on_error_def clearTimeout_def settle_def)
qed

lemma silence_times_out:
  assumes pre: "list_all (\<lambda>a. fst a < ms \<and> snd a = Open) pre"
    and late: "takeWhile (\<lambda>a. fst a < ms) rest = []"
    and ms: "ms = (case timeoutMs of None \<Rightarrow> 2000 | Some n \<Rightarrow> n)"
  shows "promise (sendCanvasRequest h path rq expected timeoutMs (pre @ rest)) =
           Some (Rejected TimeoutWaitingForResponse)"
proof -
  define s0 where "s0 = \<lparr> resolved = False, timer_pending = True, promise = None,
                          actions = [SetTimer ms, Connect path] \<rparr>"
  define s1 where "s1 = handle_all h rq expected s0 pre"
  have s1: "\<not> resolved s1" "promise s1 = None" "timer_pending s1"
    using opens_keep[OF pre, of h rq expected s0] by (simp_all add: s1_def s0_def)
  then have s2: "resolved (on_timeout s1)" "promise (on_timeout s1) = Some (Rejected TimeoutWaitingForResponse)"
    by (simp_all add: on_timeout_def settle_def Let_def)
  have "sendCanvasRequest h path rq expected timeoutMs (pre @ rest) =
          handle_all h rq expected (on_timeout s1) (dropWhile (\<lambda>a. fst a < ms) rest)"
    using early_prefix[OF pre, of rest] late
    by (simp add: sendCanvasRequest_def ms[symmetric] Let_def s0_def s1_def handle_all_Nil)
  then show ?thesis
    using resolved_all[OF s2(1)] s2(2) by simp
qed

lemma one_connection:
  "connection_attempts (sendCanvasRequest h path rq expected timeoutMs arrivals) = 1"
proof -
  have "connection_attempts (sendCanvasRequest h path rq expected timeoutMs arrivals) =
          connection_attempts \<lparr> resolved = False, timer_pending = True, promise = None,
            actions = [SetTimer (case timeoutMs of None \<Rightarrow> 2000 | Some n \<Rightarrow> n), Connect path] \<rparr>"
    by (simp only: sendCanvasRequest_def Let_def attempts_all attempts_timeout)
  then show ?thesis
    by (simp add: connection_attempts_def)
qed

text \<open>
  C9, as amended. When nothing but the opening of the connection happens before
  \<^verbatim>\<open>timeoutMs\<close> (2000 ms by default), that is no reply arrives and the connection
  neither closes nor errors, the promise is rejected with the timeout error. When an
  error is the first thing to arrive after the opening, before the timer is due, the
  promise is rejected with that error. In every case the client has made exactly one
  connection attempt.
\<close>

theorem timeout_or_error_rejects:
  assumes "list_all (\<lambda>a. fst a < ms \<and> snd a = Open) pre"
    and "ms = (case timeoutMs of None \<Rightarrow> 2000 | Some n \<Rightarrow> n)"
  shows "(takeWhile (\<lambda>a. fst a < ms) rest = [] \<longrightarrow>
            promise (sendCanvasRequest h path rq expected timeoutMs (pre @ rest)) =
              Some (Rejected TimeoutWaitingForResponse)) \<and>
         (t < ms \<longrightarrow>
            promise (sendCanvasRequest h path rq expected timeoutMs (pre @ (t, ErrorEv err) # rest)) =
              Some (Rejected (SocketError err))) \<and>
         connection_attempts (sendCanvasRequest h path rq expected timeoutMs arrivals) = 1"
  using silence_times_out[OF assms(1) _ assms(2)] error_first_rejects[OF assms(1) _ assms(2)]
    one_connection
  by blast

text \<open>
  C9 on a reply that comes after 2500 ms (timeout), and on a connection reset after
  7 ms (that error).
\<close>

theorem timeout_or_error_rejects_witness:
  "list_all (\<lambda>a. fst a < (2000::nat) \<and> snd a = Open) [(3, Open)] \<and>
   takeWhile (\<lambda>a. fst a < (2000::nat)) [(2500, Data selection_reply)] = [] \<and>
   promise (sendCanvasRequest bare_machine ''/tmp/canvas-demo-1.sock'' ''getSelection'' ''selection'' None
              [(3, Open), (2500, Data selection_reply)]) = Some (Rejected TimeoutWaitingForResponse) \<and>
   (7::nat) < 2000 \<and>
   promise (sendCanvasRequest bare_machine ''/tmp/canvas-demo-1.sock'' ''getSelection'' ''selection'' None
              [(3, Open), (7, ErrorEv ''ECONNRESET''), (2500, Data selection_reply)]) =
     Some (Rejected (SocketError ''ECONNRESET'')) \<and>
   connection_attempts (sendCanvasRequest bare_machine ''/tmp/canvas-demo-1.sock'' ''getSelection''
                          ''selection'' None [(3, Open), (2500, Data selection_reply)]) = 1"
proof -
  have pre: "list_all (\<lambda>a. fst a < (2000::nat) \<and> snd a = Open) [(3, Open)]"
    by simp
  have ms: "(2000::nat) = (case None of None \<Rightarrow> 2000 | Some n \<Rightarrow> n)"
    by simp
  have late: "takeWhile (\<lambda>a. fst a < (2000::nat)) [(2500, Data selection_reply)] = []"
    by simp
  from timeout_or_error_rejects[OF pre ms, of "[(2500, Data selection_reply)]" bare_machine
      "''/tmp/canvas-demo-1.sock''" "''getSelection''" "''selection''" 7 "''ECONNRESET''"
      "[(3, Open), (2500, Data selection_reply)]"] pre late
  show ?thesis
    by simp
qed

text \<open>
  C9 as stated fails when the connection closes first: no reply arrives within 2000 ms,
  or ever, and the promise is resolved with \<^verbatim>\<open>null\<close>, not rejected.
\<close>

theorem closed_without_reply_counterexample:
  "list_all (\<lambda>a. case snd a of Data d \<Rightarrow> False | _ \<Rightarrow> True) [(3::nat, Open), (10, CloseEv)] \<and>
   promise (sendCanvasRequest bare_machine ''/tmp/canvas-demo-1.sock'' ''getSelection'' ''selection'' None
              [(3, Open), (10, CloseEv)]) = Some (Resolved (Some ''null''))"
  by code_simp


end
